theory Spec2Isabelle
  imports Main "HOL-Library.Word"
begin

section \<open>Ledger primitives\<close>

text \<open>
  The ledger library is consumed, not implemented, by the repository. An address is a
  33-byte array, a color and a transaction identifier are 32-byte arrays; the code only
  compares them and converts a transaction identifier to a color, so each is modelled by
  the number its bytes spell. The zero value of each Go array type is 0. Amounts are Go
  \<open>int64\<close>: 64-bit words, compared as signed numbers.
\<close>

type_synonym address = nat
type_synonym color = nat
type_synonym txid = nat
type_synonym hashvalue = nat
type_synonym int64 = "64 word"
type_synonym uint32 = "32 word"
type_synonym uint16 = "16 word"
type_synonym byte = "8 word"

text \<open>\<open>balance.ColorNew\<close>: the reserved color of freshly minted tokens, all bytes 255.\<close>

definition ColorNew :: color where
  "ColorNew = 2 ^ 256 - 1"

text \<open>\<open>balance.Balance\<close>: a colored amount.\<close>

type_synonym balance = "color \<times> int64"

text \<open>Go's \<open>error\<close> values are created by \<open>errors.New\<close> and \<open>fmt.Errorf\<close>: a message.\<close>

datatype error = Error string

section \<open>Request arguments\<close>

text \<open>
  Modelled from the spec: package \<open>kv\<close> is not among the sources. A \<open>kv.Map\<close> holds
  one value for each key; its codec stores an \<open>int64\<close>, a string, raw bytes or a hash
  value (section 3: "key to typed value: int64, string, raw bytes, or ledger primitive
  encoded as bytes"). The bytes of an address and of a color are kept as the address and
  the color they spell. \<open>kvSet\<close> is the write of all the codec's setters.
\<close>

datatype kvvalue =
    KInt64 int64
  | KString string
  | KBytes "byte list"
  | KHashValue hashvalue
  | KAddressBytes address
  | KColorBytes color

type_synonym kvMap = "(string \<times> kvvalue) list"

fun kvSet :: "kvMap \<Rightarrow> string \<Rightarrow> kvvalue \<Rightarrow> kvMap" where
  "kvSet [] key v = [(key, v)]"
| "kvSet ((k, w) # m) key v = (if k = key then (k, v) # m else (k, w) # kvSet m key v)"

fun kvGet :: "kvMap \<Rightarrow> string \<Rightarrow> kvvalue option" where
  "kvGet [] key = None"
| "kvGet ((k, w) # m) key = (if k = key then Some w else kvGet m key)"

section \<open>Smart-contract transactions\<close>

record StateBlock =
  sb_color :: color
  sb_stateIndex :: uint32
  sb_stateHash :: hashvalue
  sb_timestamp :: int64

record RequestBlock =
  rb_address :: address
  rb_reqCode :: uint16
  rb_timelock :: uint32
  rb_args :: kvMap

text \<open>
  A sealed transaction as the property analysis reads it: \<open>tx_inputs\<close> are the keys of
  the ordered input map in the order \<open>ForEachAddress\<close> visits them, \<open>tx_outputs\<close> the
  entries of the ordered output map in the order \<open>ForEach\<close> visits them, \<open>tx_state\<close>
  the optional state block (\<open>tx.State()\<close>) and \<open>tx_requests\<close> the request blocks.
\<close>

record Transaction =
  tx_id :: txid
  tx_inputs :: "address list"
  tx_outputs :: "(address \<times> balance list) list"
  tx_state :: "StateBlock option"
  tx_requests :: "RequestBlock list"

text \<open>
  Modelled from the spec: \<open>util.BalanceOfColor\<close> is not among the sources. It is the
  amount of one color in a list of balances (section 4.2, step 2: "for every output
  carrying the reserved new color, accumulate ... amounts"), summed in \<open>int64\<close>.
\<close>

fun BalanceOfColor :: "balance list \<Rightarrow> color \<Rightarrow> int64" where
  "BalanceOfColor [] col = 0"
| "BalanceOfColor ((c, v) # bals) col =
     (if c = col then v + BalanceOfColor bals col else BalanceOfColor bals col)"

subsection \<open>Go maps from addresses to counters\<close>

text \<open>
  \<open>map[address.Address]int64\<close> as an association list with one entry for each key.
  \<open>lookup0\<close> is the read \<open>n, _ := m[k]\<close>, which gives 0 for a missing key.
\<close>

type_synonym counters = "(address \<times> int64) list"

fun lookup0 :: "counters \<Rightarrow> address \<Rightarrow> int64" where
  "lookup0 [] k = 0"
| "lookup0 ((a, n) # m) k = (if a = k then n else lookup0 m k)"

fun assign :: "counters \<Rightarrow> address \<Rightarrow> int64 \<Rightarrow> counters" where
  "assign [] k v = [(k, v)]"
| "assign ((a, n) # m) k v = (if a = k then (a, v) # m else (a, n) # assign m k v)"

fun has_key :: "counters \<Rightarrow> address \<Rightarrow> bool" where
  "has_key [] k = False"
| "has_key ((a, n) # m) k = (a = k \<or> has_key m k)"

subsection \<open>Properties\<close>

record Properties =
  sender :: address
  isState :: bool
  isOrigin :: bool
  stateAddress :: address
  stateColor :: color
  numMintedTokensByAddr :: counters
  numMintedTokens :: int64

text \<open>\<open>ret := &Properties{}\<close>: every field has its zero value.\<close>

definition emptyProperties :: Properties where
  "emptyProperties =
     \<lparr>sender = 0, isState = False, isOrigin = False, stateAddress = 0, stateColor = 0,
      numMintedTokensByAddr = [], numMintedTokens = 0\<rparr>"

text \<open>
  \<open>analyzeSender\<close>: the callback of \<open>ForEachAddress\<close> with its flag \<open>senderFound\<close>;
  returning \<open>false\<close> from the callback ends the iteration.
\<close>

fun senderLoop :: "address list \<Rightarrow> bool \<Rightarrow> Properties \<Rightarrow> error option \<times> Properties" where
  "senderLoop [] senderFound prop = (None, prop)"
| "senderLoop (addr # rest) senderFound prop =
     (if senderFound
      then (Some (Error ''smart contract transaction must contain exactly 1 input address''), prop)
      else senderLoop rest True (prop\<lparr>sender := addr\<rparr>))"

definition analyzeSender :: "Properties \<Rightarrow> Transaction \<Rightarrow> error option \<times> Properties" where
  "analyzeSender prop tx = senderLoop (tx_inputs tx) False prop"

text \<open>\<open>countMintedTokens\<close>: the callback of \<open>Outputs().ForEach\<close>, which always continues.\<close>

fun mintedLoop :: "(address \<times> balance list) list \<Rightarrow> Properties \<Rightarrow> Properties" where
  "mintedLoop [] prop = prop"
| "mintedLoop ((addr, bals) # rest) prop =
     (let v = BalanceOfColor bals ColorNew in
      if v \<noteq> 0
      then mintedLoop rest
             (prop\<lparr>numMintedTokensByAddr :=
                      assign (numMintedTokensByAddr prop) addr
                        (lookup0 (numMintedTokensByAddr prop) addr + v),
                    numMintedTokens := numMintedTokens prop + v\<rparr>)
      else mintedLoop rest prop)"

definition countMintedTokens :: "Properties \<Rightarrow> Transaction \<Rightarrow> Properties" where
  "countMintedTokens prop tx = mintedLoop (tx_outputs tx) (prop\<lparr>numMintedTokensByAddr := []\<rparr>)"

text \<open>
  The summing callback of \<open>analyzeStateBlock\<close> for an assigned color: \<open>v\<close> is the running
  sum; the address of every output visited without an error is stored as the state address.
\<close>

fun stateOutputLoop ::
  "(address \<times> balance list) list \<Rightarrow> int64 \<Rightarrow> Properties \<Rightarrow> error option \<times> Properties" where
  "stateOutputLoop [] v prop = (None, prop)"
| "stateOutputLoop ((addr, bals) # rest) v prop =
     (let v' = v + BalanceOfColor bals (stateColor prop) in
      if 1 <s v'
      then (Some (Error ''sc transaction must contain exactly one sc token output''), prop)
      else stateOutputLoop rest v' (prop\<lparr>stateAddress := addr\<rparr>))"

definition analyzeStateBlock :: "Properties \<Rightarrow> Transaction \<Rightarrow> error option \<times> Properties" where
  "analyzeStateBlock prop0 tx =
     (case tx_state tx of
        None \<Rightarrow> (None, prop0\<lparr>isState := False\<rparr>)
      | Some stateBlock \<Rightarrow>
          (let prop = prop0\<lparr>isState := True\<rparr> in
           if sb_color stateBlock \<noteq> ColorNew
           then (case stateOutputLoop (tx_outputs tx) 0 (prop\<lparr>stateColor := sb_color stateBlock\<rparr>) of
                   (Some err, prop') \<Rightarrow> (Some err, prop')
                 | (None, prop') \<Rightarrow>
                     if stateAddress prop' \<noteq> sender prop'
                     then (Some (Error ''SC token must move from the SC address to itself''), prop')
                     else (None, prop'))
           else if 1 < length (numMintedTokensByAddr prop)
           then (Some (Error ''in the origin transaction tokens can be minted only to 1 address''), prop)
           else (None,
                 (case numMintedTokensByAddr prop of
                    [] \<Rightarrow> prop
                  | (stateAddr, n) # others \<Rightarrow> prop\<lparr>stateAddress := stateAddr\<rparr>)
                 \<lparr>isOrigin := True, stateColor := tx_id tx\<rparr>)))"

text \<open>\<open>numReqByAddr\<close>: the number of request blocks for each target address.\<close>

fun countRequests :: "RequestBlock list \<Rightarrow> counters \<Rightarrow> counters" where
  "countRequests [] numReqByAddr = numReqByAddr"
| "countRequests (reqBlk # rest) numReqByAddr =
     countRequests rest
       (assign numReqByAddr (rb_address reqBlk) (lookup0 numReqByAddr (rb_address reqBlk) + 1))"

text \<open>
  The last loop of \<open>analyzeRequestBlocks\<close>. Go visits the map in an unspecified order,
  but every failing entry gives the same error, so the order does not show.
\<close>

definition tokensMissing :: "Properties \<Rightarrow> counters \<Rightarrow> bool" where
  "tokensMissing prop numReqByAddr =
     list_ex (\<lambda>(targetAddr, numReq). lookup0 (numMintedTokensByAddr prop) targetAddr <s numReq)
       numReqByAddr"

definition originRequestsWrong :: "Properties \<Rightarrow> counters \<Rightarrow> bool" where
  "originRequestsWrong prop numReqByAddr =
     (if length numReqByAddr \<noteq> 1 then True
      else \<not> has_key numReqByAddr (stateAddress prop))"

definition analyzeRequestBlocks :: "Properties \<Rightarrow> Transaction \<Rightarrow> error option" where
  "analyzeRequestBlocks prop tx =
     (if \<not> isState prop \<and> length (tx_requests tx) = 0
      then Some (Error ''smart contract transaction which does not contain state block must contain at least one request'')
      else if length (tx_requests tx) = 0 then None
      else (let numReqByAddr = countRequests (tx_requests tx) [] in
            if isOrigin prop \<and> originRequestsWrong prop numReqByAddr
            then Some (Error ''in the origin transaction all requests must have target only newly created smart contract'')
            else if tokensMissing prop numReqByAddr then Some (Error '''')
            else None))"

definition calcProperties :: "Transaction \<Rightarrow> error + Properties" where
  "calcProperties tx =
     (case analyzeSender emptyProperties tx of
        (Some err, ret) \<Rightarrow> Inl err
      | (None, ret) \<Rightarrow>
          (case analyzeStateBlock (countMintedTokens ret tx) tx of
             (Some err, ret') \<Rightarrow> Inl err
           | (None, ret') \<Rightarrow>
               (case analyzeRequestBlocks ret' tx of
                  Some err \<Rightarrow> Inl err
                | None \<Rightarrow> Inr ret')))"

subsection \<open>Accessors\<close>

text \<open>A Go \<open>panic\<close> with its message.\<close>

datatype panic = Panic string

definition Sender :: "Properties \<Rightarrow> address" where
  "Sender prop = sender prop"

definition IsState :: "Properties \<Rightarrow> bool" where
  "IsState prop = isState prop"

definition IsOrigin :: "Properties \<Rightarrow> bool" where
  "IsOrigin prop = isState prop"

definition MustStateAddress :: "Properties \<Rightarrow> panic + address" where
  "MustStateAddress prop =
     (if \<not> isState prop then Inl (Panic ''MustStateAddress: must be a state transaction'')
      else Inr (stateAddress prop))"

definition MustStateColor :: "Properties \<Rightarrow> panic + color" where
  "MustStateColor prop =
     (if \<not> isState prop then Inl (Panic ''MustStateColor: must be a state transaction'')
      else Inr (stateColor prop))"

section \<open>Building a request transaction (package apilib)\<close>

text \<open>
  The dynamic type and value of a Go \<open>interface{}\<close> in \<open>RequestBlockParams.Vars\<close>. The
  first thirteen constructors are the types \<open>convertArgs\<close> switches on, in its order;
  \<open>int\<close> has 64 bits on the platforms of the node, \<open>byte\<close> is \<open>uint8\<close>, and the three
  pointers are taken to point to a value. \<open>GoInt8\<close>, \<open>GoUint\<close>, \<open>GoBool\<close> and \<open>GoOther\<close>
  (any further type, by its name) are dynamic types the switch does not list.
\<close>

datatype govalue =
    GoInt int64
  | GoByte byte
  | GoInt16 "16 word"
  | GoInt32 "32 word"
  | GoInt64 int64
  | GoUint16 "16 word"
  | GoUint32 "32 word"
  | GoUint64 "64 word"
  | GoString string
  | GoBytes "byte list"
  | GoHashValuePtr hashvalue
  | GoAddressPtr address
  | GoColorPtr color
  | GoInt8 "8 word"
  | GoUint "64 word"
  | GoBool bool
  | GoOther string

text \<open>
  The loop of \<open>convertArgs\<close> over the entries of \<open>vars\<close>, in the order Go happens to
  visit them; \<open>None\<close> is the \<open>nil\<close> map of the default case. The conversion \<open>int64(vt)\<close>
  extends a signed value with its sign (\<open>scast\<close>) and an unsigned one with zeros
  (\<open>ucast\<close>); on a \<open>uint64\<close> it keeps the 64 bits as they are.
\<close>

fun convertLoop :: "(string \<times> govalue) list \<Rightarrow> kvMap \<Rightarrow> kvMap option" where
  "convertLoop [] args = Some args"
| "convertLoop ((k, v) # vars) args =
     (case v of
        GoInt vt \<Rightarrow> convertLoop vars (kvSet args k (KInt64 vt))
      | GoByte vt \<Rightarrow> convertLoop vars (kvSet args k (KInt64 (ucast vt)))
      | GoInt16 vt \<Rightarrow> convertLoop vars (kvSet args k (KInt64 (scast vt)))
      | GoInt32 vt \<Rightarrow> convertLoop vars (kvSet args k (KInt64 (scast vt)))
      | GoInt64 vt \<Rightarrow> convertLoop vars (kvSet args k (KInt64 vt))
      | GoUint16 vt \<Rightarrow> convertLoop vars (kvSet args k (KInt64 (ucast vt)))
      | GoUint32 vt \<Rightarrow> convertLoop vars (kvSet args k (KInt64 (ucast vt)))
      | GoUint64 vt \<Rightarrow> convertLoop vars (kvSet args k (KInt64 vt))
      | GoString vt \<Rightarrow> convertLoop vars (kvSet args k (KString vt))
      | GoBytes vt \<Rightarrow> convertLoop vars (kvSet args k (KBytes vt))
      | GoHashValuePtr vt \<Rightarrow> convertLoop vars (kvSet args k (KHashValue vt))
      | GoAddressPtr vt \<Rightarrow> convertLoop vars (kvSet args k (KAddressBytes vt))
      | GoColorPtr vt \<Rightarrow> convertLoop vars (kvSet args k (KColorBytes vt))
      | _ \<Rightarrow> None)"

definition convertArgs :: "(string \<times> govalue) list \<Rightarrow> kvMap option" where
  "convertArgs vars = convertLoop vars []"

text \<open>The types the switch of \<open>convertArgs\<close> has a case for, and its integer cases.\<close>

fun recognized :: "govalue \<Rightarrow> bool" where
  "recognized (GoInt8 vt) = False"
| "recognized (GoUint vt) = False"
| "recognized (GoBool vt) = False"
| "recognized (GoOther name) = False"
| "recognized v = True"

fun integerCase :: "govalue \<Rightarrow> bool" where
  "integerCase (GoInt vt) = True"
| "integerCase (GoByte vt) = True"
| "integerCase (GoInt16 vt) = True"
| "integerCase (GoInt32 vt) = True"
| "integerCase (GoInt64 vt) = True"
| "integerCase (GoUint16 vt) = True"
| "integerCase (GoUint32 vt) = True"
| "integerCase (GoUint64 vt) = True"
| "integerCase v = False"

record RequestBlockParams =
  TargetSCAddress :: address
  RequestCode :: uint16
  Timelock :: uint32
  Transfer :: "(color \<times> int64) list"
  Vars :: "(string \<times> govalue) list"

text \<open>
  \<open>SenderSigScheme\<close> is the signature scheme, known here by its address; the node client
  is part of the collaborators below.
\<close>

record CreateRequestTransactionParams =
  SenderSigScheme :: address
  BlockParams :: "RequestBlockParams list"
  Post :: bool
  WaitForConfirmation :: bool
  WaitForCompletion :: bool
  PublisherHosts :: "string list"
  PublisherQuorum :: int
  Timeout :: int64

text \<open>
  The collaborators of \<open>CreateRequestTransaction\<close>, none of them among the sources, as
  parameters: the node client (\<open>nc_\<close>), the transaction builder (\<open>txb_\<close>), signing, the
  subscription to the publishers (\<open>subs_\<close>), and the text \<open>%v\<close> prints for a duration.
  A pattern is kept as the target address, the transaction and the index it names.
\<close>

record 'txb apilib_env =
  nc_GetConfirmedAccountOutputs :: "address \<Rightarrow> error + (txid \<times> balance list) list"
  nc_PostTransaction :: "Transaction \<Rightarrow> error option"
  nc_PostAndWaitForConfirmation :: "Transaction \<Rightarrow> error option"
  txb_NewFromOutputBalances :: "(txid \<times> balance list) list \<Rightarrow> error + 'txb"
  txb_AddRequestBlockWithTransfer ::
    "'txb \<Rightarrow> RequestBlock \<Rightarrow> address \<Rightarrow> (color \<times> int64) list \<Rightarrow> error + 'txb"
  txb_Build :: "'txb \<Rightarrow> bool \<Rightarrow> error + Transaction"
  tx_Sign :: "Transaction \<Rightarrow> address \<Rightarrow> Transaction"
  subs_SubscribeMulti :: "string list \<Rightarrow> string \<Rightarrow> int \<Rightarrow> error option"
  subs_WaitForPatterns :: "(address \<times> txid \<times> nat) list \<Rightarrow> int64 \<Rightarrow> int \<Rightarrow> bool"
  fmt_Duration :: "int64 \<Rightarrow> string"

text \<open>
  The calls \<open>CreateRequestTransaction\<close> makes to its collaborators, in order. The calls
  to the node client and to the publishers go over the network.
\<close>

datatype call =
    GetConfirmedAccountOutputs address
  | NewFromOutputBalances
  | AddRequestBlockWithTransfer address
  | Build
  | Sign
  | PostTransaction txid
  | SubscribeMulti
  | PostAndWaitForConfirmation txid
  | WaitForPatterns
  | Close

fun isNetworkCall :: "call \<Rightarrow> bool" where
  "isNetworkCall (GetConfirmedAccountOutputs a) = True"
| "isNetworkCall (PostTransaction t) = True"
| "isNetworkCall SubscribeMulti = True"
| "isNetworkCall (PostAndWaitForConfirmation t) = True"
| "isNetworkCall WaitForPatterns = True"
| "isNetworkCall Close = True"
| "isNetworkCall c = False"

fun message :: "error \<Rightarrow> string" where
  "message (Error s) = s"

text \<open>
  Modelled from the spec: \<open>sctransaction.NewRequestBlock\<close>, \<open>WithTimelock\<close> and \<open>SetArgs\<close>
  are not among the sources; a request block is "addressed to a target contract address;
  carries a request code, an optional timelock, and an argument map" (section 3).
\<close>

definition NewRequestBlock :: "address \<Rightarrow> uint16 \<Rightarrow> RequestBlock" where
  "NewRequestBlock addr code = \<lparr>rb_address = addr, rb_reqCode = code, rb_timelock = 0, rb_args = []\<rparr>"

definition WithTimelock :: "RequestBlock \<Rightarrow> uint32 \<Rightarrow> RequestBlock" where
  "WithTimelock reqBlk timelock = reqBlk\<lparr>rb_timelock := timelock\<rparr>"

definition SetArgs :: "RequestBlock \<Rightarrow> kvMap \<Rightarrow> RequestBlock" where
  "SetArgs reqBlk args = reqBlk\<lparr>rb_args := args\<rparr>"

text \<open>The loop of \<open>CreateRequestTransaction\<close> over \<open>par.BlockParams\<close>.\<close>

fun addBlocks ::
  "'txb apilib_env \<Rightarrow> RequestBlockParams list \<Rightarrow> 'txb \<Rightarrow> call list \<Rightarrow> (error + 'txb) \<times> call list" where
  "addBlocks env [] txb calls = (Inr txb, calls)"
| "addBlocks env (blockPar # rest) txb calls =
     (let reqBlk = WithTimelock (NewRequestBlock (TargetSCAddress blockPar) (RequestCode blockPar))
                     (Timelock blockPar)
      in case convertArgs (Vars blockPar) of
           None \<Rightarrow> (Inl (Error ''wrong arguments''), calls)
         | Some args \<Rightarrow>
             (case txb_AddRequestBlockWithTransfer env txb (SetArgs reqBlk args)
                     (TargetSCAddress blockPar) (Transfer blockPar) of
                Inl err \<Rightarrow> (Inl err, calls @ [AddRequestBlockWithTransfer (TargetSCAddress blockPar)])
              | Inr txb' \<Rightarrow>
                  addBlocks env rest txb'
                    (calls @ [AddRequestBlockWithTransfer (TargetSCAddress blockPar)])))"

text \<open>
  The rest of \<open>CreateRequestTransaction\<close>, from \<open>if !par.Post\<close> on. The deferred
  \<open>subs.Close()\<close> runs at every return after a successful subscription.
\<close>

definition postTransaction ::
  "'txb apilib_env \<Rightarrow> CreateRequestTransactionParams \<Rightarrow> Transaction \<Rightarrow> call list
     \<Rightarrow> (error + Transaction) \<times> call list" where
  "postTransaction env par tx calls =
     (if \<not> Post par then (Inr tx, calls)
      else if \<not> WaitForConfirmation par
      then (case nc_PostTransaction env tx of
              Some err \<Rightarrow> (Inl err, calls @ [PostTransaction (tx_id tx)])
            | None \<Rightarrow> (Inr tx, calls @ [PostTransaction (tx_id tx)]))
      else (case (if WaitForCompletion par
                  then subs_SubscribeMulti env (PublisherHosts par) ''request_out'' (PublisherQuorum par)
                  else None) of
              Some err \<Rightarrow> (Inl err, calls @ [SubscribeMulti])
            | None \<Rightarrow>
                (let calls1 = (if WaitForCompletion par then calls @ [SubscribeMulti] else calls);
                     closing = (if WaitForCompletion par then [Close] else []);
                     calls2 = calls1 @ [PostAndWaitForConfirmation (tx_id tx)]
                 in case nc_PostAndWaitForConfirmation env tx of
                      Some err \<Rightarrow> (Inl err, calls2 @ closing)
                    | None \<Rightarrow>
                        if WaitForCompletion par
                        then (let patterns = map (\<lambda>i. (TargetSCAddress (BlockParams par ! i), tx_id tx, i))
                                               [0 ..< length (BlockParams par)]
                              in if \<not> subs_WaitForPatterns env patterns (Timeout par) (PublisherQuorum par)
                                 then (Inl (Error (''didn't receive completion message after '' @
                                                     fmt_Duration env (Timeout par))),
                                       calls2 @ [WaitForPatterns] @ closing)
                                 else (Inr tx, calls2 @ [WaitForPatterns] @ closing))
                        else (Inr tx, calls2 @ closing))))"

definition CreateRequestTransaction ::
  "'txb apilib_env \<Rightarrow> CreateRequestTransactionParams \<Rightarrow> (error + Transaction) \<times> call list" where
  "CreateRequestTransaction env par =
     (let senderAddr = SenderSigScheme par;
          calls = [GetConfirmedAccountOutputs senderAddr]
      in case nc_GetConfirmedAccountOutputs env senderAddr of
           Inl err \<Rightarrow> (Inl (Error (''can't get outputs from the node: '' @ message err)), calls)
         | Inr allOuts \<Rightarrow>
             (case txb_NewFromOutputBalances env allOuts of
                Inl err \<Rightarrow> (Inl err, calls @ [NewFromOutputBalances])
              | Inr txb \<Rightarrow>
                  (case addBlocks env (BlockParams par) txb (calls @ [NewFromOutputBalances]) of
                     (Inl err, calls1) \<Rightarrow> (Inl err, calls1)
                   | (Inr txb', calls1) \<Rightarrow>
                       (case txb_Build env txb' False of
                          Inl err \<Rightarrow> (Inl err, calls1 @ [Build])
                        | Inr built \<Rightarrow>
                            (let tx = tx_Sign env built senderAddr in
                             case calcProperties tx of
                               Inl err \<Rightarrow> (Inl err, calls1 @ [Build, Sign])
                             | Inr props \<Rightarrow> postTransaction env par tx (calls1 @ [Build, Sign]))))))"

section \<open>Running a batch of requests (package runvm)\<close>

text \<open>
  The repository holds two versions of the runner: \<open>plugins/runvm/plugin.go\<close> with
  \<open>RunComputationsAsync\<close> and \<open>runTask\<close>, and an older file with
  \<open>RunComputationsAsync\<close> and \<open>runVM\<close>. Both are modelled; the names of the older
  version carry a \<open>0\<close> or the suffix \<open>_vm\<close>.
\<close>

subsection \<open>Requests, states and the heap\<close>

text \<open>
  Modelled from the spec: \<open>sctransaction.RequestRef\<close> is not among the sources. It is a
  request reference "pointing back to its originating transaction and request index"
  (section 3); \<open>rr_Tx\<close> is the identifier \<open>reqRef.Tx.ID()\<close>.
\<close>

type_synonym RequestId = "txid \<times> uint16"

record RequestRef =
  rr_Tx :: txid
  rr_Index :: uint16

definition RequestId :: "RequestRef \<Rightarrow> RequestId" where
  "RequestId reqRef = (rr_Tx reqRef, rr_Index reqRef)"

definition TakeRequestIds :: "RequestRef list \<Rightarrow> RequestId list" where
  "TakeRequestIds reqs = map RequestId reqs"

text \<open>
  Virtual states are objects that the task, the VM context and the runner share by
  reference and change in place. They live in a heap: a reference is an index into the
  list of the objects allocated so far, and a new object is appended. A reference is
  taken to point to an object of the heap (Go panics on a \<open>nil\<close> one); the theorems that
  depend on it say so.

  Package \<open>state\<close> is not among the sources. Its operations are parameters: \<open>'vs\<close>
  is the content of a virtual state, \<open>'su\<close> a state update, \<open>'bt\<close> a batch. An operation
  that changes its receiver returns the new content; \<open>st_Clone\<close> and
  \<open>st_NewVariableState\<close> give the content of the copy they allocate.
\<close>

type_synonym ref = nat

record ('vs, 'su, 'bt) state_pkg =
  st_NilStateUpdate :: 'su
  st_NewStateUpdate :: "RequestId \<Rightarrow> 'su"
  st_WithTimestamp :: "'su \<Rightarrow> int64 \<Rightarrow> 'su"
  st_ApplyStateUpdate :: "'vs \<Rightarrow> 'su \<Rightarrow> 'vs"
  st_NewBatch :: "'su list \<Rightarrow> error + 'bt"
  st_WithStateIndex :: "'bt \<Rightarrow> uint32 \<Rightarrow> 'bt"
  st_StateIndex :: "'vs \<Rightarrow> uint32"
  st_ApplyBatch :: "'vs \<Rightarrow> 'bt \<Rightarrow> error option \<times> 'vs"
  st_Hash :: "'vs \<Rightarrow> hashvalue"
  st_Timestamp :: "'vs \<Rightarrow> int64"
  st_Clone :: "'vs \<Rightarrow> 'vs"
  st_NewVariableState :: "'vs \<Rightarrow> 'vs"

subsection \<open>The daemon\<close>

text \<open>
  Modelled from the spec: the daemon of the \<open>hive.go\<close> library keeps the background
  workers by name; "if a task with that name is already running, submission is rejected"
  (section 4.4), and so it is after shutdown. A worker is kept as the values its closure
  captures; it runs later, in the background.
\<close>

record 'w daemon =
  d_stopped :: bool
  d_workers :: "(string \<times> 'w) list"

definition daemon_BackgroundWorker :: "'w daemon \<Rightarrow> string \<Rightarrow> 'w \<Rightarrow> error option \<times> 'w daemon" where
  "daemon_BackgroundWorker d name worker =
     (if d_stopped d then (Some (Error ''daemon was already stopped''), d)
      else if name \<in> set (map fst (d_workers d))
      then (Some (Error ''existing background worker is still running''), d)
      else (None, d\<lparr>d_workers := d_workers d @ [(name, worker)]\<rparr>))"

text \<open>The calls of the runner to its collaborators and to the callback of the task.\<close>

datatype runvm_call =
    NewFromAddressBalances
  | NewTxBuilder
  | BackgroundWorker string
  | OnFinish "error option"

subsection \<open>plugin.go: the task and its context\<close>

record 'bt VMTask =
  ctx_Address :: address
  ctx_Balances :: "(txid \<times> balance list) list"
  ctx_Requests :: "RequestRef list"
  ctx_Timestamp :: int64
  ctx_LeaderPeerIndex :: uint16
  ctx_VirtualState :: ref
  ctx_ResultBatch :: "'bt option"
  ctx_ResultTransaction :: "Transaction option"

text \<open>The fields of \<open>vm.VMContext\<close> that \<open>runTask\<close> reads or writes.\<close>

record ('txb, 'su) VMContext =
  vmctx_RequestRef :: RequestRef
  vmctx_StateUpdate :: 'su
  vmctx_VirtualState :: ref
  vmctx_Timestamp :: int64
  vmctx_Entropy :: hashvalue
  vmctx_TxBuilder :: 'txb

text \<open>
  The collaborators of \<open>plugin.go\<close>, none of them among the sources, as parameters.
  \<open>createVMContext\<close> and \<open>runTheRequest\<close> get the context by reference and may change
  any object: they map the context and the heap to a new context and heap.
\<close>

record ('txb, 'vs, 'su, 'bt) host =
  h_NewFromAddressBalances :: "address \<Rightarrow> (txid \<times> balance list) list \<Rightarrow> error + 'txb"
  h_BatchHash :: "RequestId list \<Rightarrow> int64 \<Rightarrow> uint16 \<Rightarrow> hashvalue"
  h_AddressString :: "address \<Rightarrow> string"
  h_HashString :: "hashvalue \<Rightarrow> string"
  h_createVMContext ::
    "'bt VMTask \<Rightarrow> 'txb \<Rightarrow> 'vs list \<Rightarrow> error + (('txb, 'su) VMContext \<times> 'vs list)"
  h_runTheRequest :: "('txb, 'su) VMContext \<Rightarrow> 'vs list \<Rightarrow> ('txb, 'su) VMContext \<times> 'vs list"
  h_HashData :: "hashvalue \<Rightarrow> hashvalue"
  h_SetStateParams :: "'txb \<Rightarrow> uint32 \<Rightarrow> hashvalue \<Rightarrow> int64 \<Rightarrow> error option \<times> 'txb"
  h_Build :: "'txb \<Rightarrow> bool \<Rightarrow> error + Transaction"

text \<open>
  \<open>RunComputationsAsync\<close> of \<open>plugin.go\<close>. The result is the returned error, the daemon
  afterwards and the calls made; the worker captures \<open>ctx\<close> and \<open>txb\<close>.
\<close>

definition RunComputationsAsync ::
  "('txb, 'vs, 'su, 'bt) host \<Rightarrow> ('bt VMTask \<times> 'txb) daemon \<Rightarrow> 'bt VMTask
     \<Rightarrow> error option \<times> ('bt VMTask \<times> 'txb) daemon \<times> runvm_call list" where
  "RunComputationsAsync H vmDaemon ctx =
     (if length (ctx_Requests ctx) = 0
      then (Some (Error ''must be at least 1 request''), vmDaemon, [])
      else (case h_NewFromAddressBalances H (ctx_Address ctx) (ctx_Balances ctx) of
              Inl err \<Rightarrow> (Some err, vmDaemon, [NewFromAddressBalances])
            | Inr txb \<Rightarrow>
                (let reqids = TakeRequestIds (ctx_Requests ctx);
                     bh = h_BatchHash H reqids (ctx_Timestamp ctx) (ctx_LeaderPeerIndex ctx);
                     taskName = h_AddressString H (ctx_Address ctx) @ ''.'' @ h_HashString H bh
                 in case daemon_BackgroundWorker vmDaemon taskName (ctx, txb) of
                      (err, vmDaemon') \<Rightarrow>
                        (err, vmDaemon', [NewFromAddressBalances, BackgroundWorker taskName]))))"

text \<open>The loop of \<open>runTask\<close> over \<open>ctx.Requests\<close>.\<close>

fun runTask_requests ::
  "('vs, 'su, 'bt) state_pkg \<Rightarrow> ('txb, 'vs, 'su, 'bt) host \<Rightarrow> RequestRef list
     \<Rightarrow> ('txb, 'su) VMContext \<Rightarrow> 'su list \<Rightarrow> 'vs list
     \<Rightarrow> ('txb, 'su) VMContext \<times> 'su list \<times> 'vs list" where
  "runTask_requests S H [] vmctx stateUpdates heap = (vmctx, stateUpdates, heap)"
| "runTask_requests S H (reqRef # rest) vmctx stateUpdates heap =
     (let vmctx1 = vmctx\<lparr>vmctx_RequestRef := reqRef,
                         vmctx_StateUpdate :=
                           st_WithTimestamp S (st_NewStateUpdate S (RequestId reqRef))
                             (vmctx_Timestamp vmctx)\<rparr>;
          (vmctx2, heap2) = h_runTheRequest H vmctx1 heap;
          stateUpdates' = stateUpdates @ [vmctx_StateUpdate vmctx2];
          heap3 = heap2[vmctx_VirtualState vmctx2 :=
                          st_ApplyStateUpdate S (heap2 ! vmctx_VirtualState vmctx2)
                            (vmctx_StateUpdate vmctx2)];
          vmctx3 = (if vmctx_Timestamp vmctx2 \<noteq> 0
                    then vmctx2\<lparr>vmctx_Timestamp := vmctx_Timestamp vmctx2 + 1\<rparr>
                    else vmctx2);
          vmctx4 = vmctx3\<lparr>vmctx_Entropy := h_HashData H (vmctx_Entropy vmctx3)\<rparr>
      in runTask_requests S H rest vmctx4 stateUpdates' heap3)"

text \<open>
  "calculate resulting state hash": \<open>vsClone := ctx.VirtualState.Clone()\<close> allocates a
  new object, and \<open>vsClone.ApplyBatch\<close> changes that object. The result is the error of
  \<open>ApplyBatch\<close>, the reference \<open>vsClone\<close> and the heap.
\<close>

definition cloneAndApplyBatch ::
  "('vs, 'su, 'bt) state_pkg \<Rightarrow> 'vs list \<Rightarrow> ref \<Rightarrow> 'bt \<Rightarrow> error option \<times> ref \<times> 'vs list" where
  "cloneAndApplyBatch S heap virtualState batch =
     (let vsClone = length heap;
          heap1 = heap @ [st_Clone S (heap ! virtualState)];
          (err, vs') = st_ApplyBatch S (heap1 ! vsClone) batch
      in (err, vsClone, heap1[vsClone := vs']))"

text \<open>
  \<open>runTask\<close> after the loop has produced at least one state update. The result is the
  task, the heap and the call of \<open>ctx.OnFinish\<close> that ends every path.
\<close>

definition runTask_finish ::
  "('vs, 'su, 'bt) state_pkg \<Rightarrow> ('txb, 'vs, 'su, 'bt) host \<Rightarrow> 'bt VMTask \<Rightarrow> ('txb, 'su) VMContext
     \<Rightarrow> 'su list \<Rightarrow> 'vs list \<Rightarrow> 'bt VMTask \<times> 'vs list \<times> runvm_call list" where
  "runTask_finish S H ctx vmctx stateUpdates heap =
     (case st_NewBatch S stateUpdates of
        Inl err \<Rightarrow>
          (ctx\<lparr>ctx_ResultBatch := None\<rparr>, heap, [OnFinish (Some (Error (''RunVM: '' @ message err)))])
      | Inr newBatch \<Rightarrow>
          (let batch = st_WithStateIndex S newBatch (st_StateIndex S (heap ! ctx_VirtualState ctx) + 1);
               ctx1 = ctx\<lparr>ctx_ResultBatch := Some batch\<rparr>
           in case cloneAndApplyBatch S heap (ctx_VirtualState ctx) batch of
                (Some err, vsClone, heap') \<Rightarrow>
                  (ctx1, heap', [OnFinish (Some (Error (''RunVM: '' @ message err)))])
              | (None, vsClone, heap') \<Rightarrow>
                  (let stateHash = st_Hash S (heap' ! vsClone) in
                   case h_SetStateParams H (vmctx_TxBuilder vmctx)
                          (st_StateIndex S (heap' ! ctx_VirtualState ctx) + 1) stateHash
                          (st_Timestamp S (heap' ! vsClone)) of
                     (Some err, txb') \<Rightarrow>
                       (ctx1, heap',
                        [OnFinish (Some (Error (''RunVM.txbuilder.SetStateParams: '' @ message err)))])
                   | (None, txb') \<Rightarrow>
                       (case h_Build H txb' False of
                          Inl err \<Rightarrow>
                            (ctx1\<lparr>ctx_ResultTransaction := None\<rparr>, heap',
                             [OnFinish (Some (Error (''RunVM.txbuilder.Build: '' @ message err)))])
                        | Inr tx \<Rightarrow>
                            (case calcProperties tx of
                               Inl err \<Rightarrow>
                                 (ctx1\<lparr>ctx_ResultTransaction := Some tx\<rparr>, heap',
                                  [OnFinish (Some (Error (''RunVM.txbuilder.Properties: '' @ message err)))])
                             | Inr props \<Rightarrow>
                                 (ctx1\<lparr>ctx_ResultTransaction := Some tx\<rparr>, heap',
                                  [OnFinish None]))))))"

definition runTask ::
  "('vs, 'su, 'bt) state_pkg \<Rightarrow> ('txb, 'vs, 'su, 'bt) host \<Rightarrow> 'bt VMTask \<Rightarrow> 'txb \<Rightarrow> 'vs list
     \<Rightarrow> 'bt VMTask \<times> 'vs list \<times> runvm_call list" where
  "runTask S H ctx txb heap =
     (case h_createVMContext H ctx txb heap of
        Inl err \<Rightarrow> (ctx, heap, [OnFinish (Some (Error (''createVMContext: '' @ message err)))])
      | Inr (vmctx0, heap0) \<Rightarrow>
          (case runTask_requests S H (ctx_Requests ctx) vmctx0 [] heap0 of
             (vmctx, stateUpdates, heap1) \<Rightarrow>
               if length stateUpdates = 0
               then (ctx, heap1, [OnFinish (Some (Error ''RunVM: no state updates were produced''))])
               else runTask_finish S H ctx vmctx stateUpdates heap1))"

subsection \<open>The older runner: the task and its context\<close>

record 'bt VMTask0 =
  ctx0_ProgramHash :: hashvalue
  ctx0_Address :: address
  ctx0_Color :: color
  ctx0_Balances :: "(txid \<times> balance list) list"
  ctx0_Requests :: "RequestRef list"
  ctx0_Timestamp :: int64
  ctx0_VariableState :: ref
  ctx0_ResultBatch :: "'bt option"
  ctx0_ResultTransaction :: "Transaction option"

record ('txb, 'su) VMContext0 =
  vmctx0_Address :: address
  vmctx0_Color :: color
  vmctx0_TxBuilder :: 'txb
  vmctx0_Timestamp :: int64
  vmctx0_VariableState :: ref
  vmctx0_Request :: RequestRef
  vmctx0_StateUpdate :: 'su

text \<open>
  A \<open>vm.Processor\<close> is its method \<open>Run\<close>, which gets the context by reference. The
  builder is one object, known to \<open>runVM\<close> as \<open>txbuilder\<close> and as \<open>vmctx.TxBuilder\<close>; its
  state is kept in the context.
\<close>

type_synonym ('txb, 'vs, 'su) Processor =
  "('txb, 'su) VMContext0 \<Rightarrow> 'vs list \<Rightarrow> ('txb, 'su) VMContext0 \<times> 'vs list"

record 'txb host0 =
  h0_NewTxBuilder :: "(txid \<times> balance list) list \<Rightarrow> color \<Rightarrow> address \<Rightarrow> error + 'txb"
  h0_BatchHash :: "RequestId list \<Rightarrow> int64 \<Rightarrow> hashvalue"
  h0_AddressString :: "address \<Rightarrow> string"
  h0_HashString :: "hashvalue \<Rightarrow> string"
  h0_EraseColor :: "'txb \<Rightarrow> address \<Rightarrow> color \<Rightarrow> int64 \<Rightarrow> error option \<times> 'txb"
  h0_Finalize :: "'txb \<Rightarrow> uint32 \<Rightarrow> hashvalue \<Rightarrow> Transaction"

text \<open>\<open>getProcessor\<close> on the registry \<open>processors\<close>, a Go map from program hashes.\<close>

definition getProcessor ::
  "(string \<times> ('txb, 'vs, 'su) Processor) list \<Rightarrow> string \<Rightarrow> error + ('txb, 'vs, 'su) Processor" where
  "getProcessor processors programHash =
     (case map_of processors programHash of
        None \<Rightarrow> Inl (Error ''no such processor'')
      | Some ret \<Rightarrow> Inr ret)"

text \<open>
  \<open>RunComputationsAsync\<close> of the older runner; the worker captures \<open>ctx\<close>, \<open>txbuilder\<close>
  and \<open>processor\<close>.
\<close>

definition RunComputationsAsync_vm ::
  "'txb host0 \<Rightarrow> (string \<times> ('txb, 'vs, 'su) Processor) list
     \<Rightarrow> ('bt VMTask0 \<times> 'txb \<times> ('txb, 'vs, 'su) Processor) daemon \<Rightarrow> 'bt VMTask0
     \<Rightarrow> error option \<times> ('bt VMTask0 \<times> 'txb \<times> ('txb, 'vs, 'su) Processor) daemon \<times> runvm_call list" where
  "RunComputationsAsync_vm H processors vmDaemon ctx =
     (case getProcessor processors (h0_HashString H (ctx0_ProgramHash ctx)) of
        Inl err \<Rightarrow> (Some err, vmDaemon, [])
      | Inr processor \<Rightarrow>
          (case h0_NewTxBuilder H (ctx0_Balances ctx) (ctx0_Color ctx) (ctx0_Address ctx) of
             Inl err \<Rightarrow> (Some err, vmDaemon, [NewTxBuilder])
           | Inr txbuilder \<Rightarrow>
               (let reqids = TakeRequestIds (ctx0_Requests ctx);
                    bh = h0_BatchHash H reqids (ctx0_Timestamp ctx);
                    taskName = h0_AddressString H (ctx0_Address ctx) @ ''.'' @ h0_HashString H bh
                in case daemon_BackgroundWorker vmDaemon taskName (ctx, txbuilder, processor) of
                     (err, vmDaemon') \<Rightarrow> (err, vmDaemon', [NewTxBuilder, BackgroundWorker taskName]))))"

text \<open>
  The loop of \<open>runVM\<close> over \<open>ctx.Requests\<close>; the \<open>break\<close> leaves the loop with the state
  updates collected so far.
\<close>

fun runVM_requests ::
  "('vs, 'su, 'bt) state_pkg \<Rightarrow> 'txb host0 \<Rightarrow> ('txb, 'vs, 'su) Processor \<Rightarrow> 'bt VMTask0
     \<Rightarrow> RequestRef list \<Rightarrow> ('txb, 'su) VMContext0 \<Rightarrow> 'su list \<Rightarrow> 'vs list
     \<Rightarrow> ('txb, 'su) VMContext0 \<times> 'su list \<times> 'vs list" where
  "runVM_requests S H processor ctx [] vmctx stateUpdates heap = (vmctx, stateUpdates, heap)"
| "runVM_requests S H processor ctx (reqRef # rest) vmctx stateUpdates heap =
     (case h0_EraseColor H (vmctx0_TxBuilder vmctx) (ctx0_Address ctx) (rr_Tx reqRef) 1 of
        (Some err, txbuilder') \<Rightarrow> (vmctx\<lparr>vmctx0_TxBuilder := txbuilder'\<rparr>, stateUpdates, heap)
      | (None, txbuilder') \<Rightarrow>
          (let vmctx1 = vmctx\<lparr>vmctx0_TxBuilder := txbuilder', vmctx0_Request := reqRef,
                              vmctx0_StateUpdate := st_NewStateUpdate S (RequestId reqRef)\<rparr>;
               (vmctx2, heap2) = processor vmctx1 heap;
               stateUpdates' = stateUpdates @ [vmctx0_StateUpdate vmctx2];
               heap3 = heap2[vmctx0_VariableState vmctx2 :=
                               st_ApplyStateUpdate S (heap2 ! vmctx0_VariableState vmctx2)
                                 (vmctx0_StateUpdate vmctx2)]
           in runVM_requests S H processor ctx rest vmctx2 stateUpdates' heap3))"

text \<open>
  The context \<open>runVM\<close> starts with: \<open>state.NewVariableState(ctx.VariableState)\<close>
  allocates the copy the requests work on ("clone").
\<close>

definition runVM_context ::
  "('vs, 'su, 'bt) state_pkg \<Rightarrow> 'bt VMTask0 \<Rightarrow> 'txb \<Rightarrow> 'vs list \<Rightarrow> ('txb, 'su) VMContext0 \<times> 'vs list" where
  "runVM_context S ctx txbuilder heap =
     (\<lparr>vmctx0_Address = ctx0_Address ctx, vmctx0_Color = ctx0_Color ctx,
       vmctx0_TxBuilder = txbuilder, vmctx0_Timestamp = ctx0_Timestamp ctx,
       vmctx0_VariableState = length heap,
       vmctx0_Request = \<lparr>rr_Tx = 0, rr_Index = 0\<rparr>,
       vmctx0_StateUpdate = st_NilStateUpdate S\<rparr>,
      heap @ [st_NewVariableState S (heap ! ctx0_VariableState ctx)])"

text \<open>
  \<open>runVM\<close> after the loop: the batch is applied to \<open>ctx.VariableState\<close> itself. The
  result is the returned error, the task, the heap and the calls of \<open>ctx.OnFinish\<close>.
\<close>

definition runVM_finish ::
  "('vs, 'su, 'bt) state_pkg \<Rightarrow> 'txb host0 \<Rightarrow> 'bt VMTask0 \<Rightarrow> ('txb, 'su) VMContext0 \<Rightarrow> 'su list
     \<Rightarrow> 'vs list \<Rightarrow> error option \<times> 'bt VMTask0 \<times> 'vs list \<times> runvm_call list" where
  "runVM_finish S H ctx vmctx stateUpdates heap =
     (case st_NewBatch S stateUpdates of
        Inl err \<Rightarrow> (Some err, ctx\<lparr>ctx0_ResultBatch := None\<rparr>, heap, [])
      | Inr newBatch \<Rightarrow>
          (let batch = st_WithStateIndex S newBatch (st_StateIndex S (heap ! ctx0_VariableState ctx) + 1);
               ctx1 = ctx\<lparr>ctx0_ResultBatch := Some batch\<rparr>;
               (err, vs') = st_ApplyBatch S (heap ! ctx0_VariableState ctx) batch;
               heap' = heap[ctx0_VariableState ctx := vs']
           in case err of
                Some e \<Rightarrow> (Some e, ctx1, heap', [])
              | None \<Rightarrow>
                  (None,
                   ctx1\<lparr>ctx0_ResultTransaction :=
                          Some (h0_Finalize H (vmctx0_TxBuilder vmctx)
                                  (st_StateIndex S (heap' ! ctx0_VariableState ctx))
                                  (st_Hash S (heap' ! ctx0_VariableState ctx)))\<rparr>,
                   heap', [OnFinish None])))"

definition runVM ::
  "('vs, 'su, 'bt) state_pkg \<Rightarrow> 'txb host0 \<Rightarrow> ('txb, 'vs, 'su) Processor \<Rightarrow> 'bt VMTask0 \<Rightarrow> 'txb
     \<Rightarrow> 'vs list \<Rightarrow> error option \<times> 'bt VMTask0 \<times> 'vs list \<times> runvm_call list" where
  "runVM S H processor ctx txbuilder heap =
     (case runVM_context S ctx txbuilder heap of
        (vmctx0, heap0) \<Rightarrow>
          (case runVM_requests S H processor ctx (ctx0_Requests ctx) vmctx0 [] heap0 of
             (vmctx, stateUpdates, heap1) \<Rightarrow> runVM_finish S H ctx vmctx stateUpdates heap1))"

section \<open>The notions of the claims, and sample inputs\<close>

subsection \<open>Requests and minted tokens of an address\<close>

text \<open>
  The words of the specification, to be compared with the counters the code keeps: the
  number of request blocks addressed to \<open>a\<close>, and the amount of the new color in the
  outputs to \<open>a\<close> (an \<open>int64\<close> sum, read as a signed number).
\<close>

definition requestCount :: "Transaction \<Rightarrow> address \<Rightarrow> nat" where
  "requestCount tx a = length (filter (\<lambda>reqBlk. rb_address reqBlk = a) (tx_requests tx))"

fun mintedSum :: "(address \<times> balance list) list \<Rightarrow> address \<Rightarrow> int64" where
  "mintedSum [] a = 0"
| "mintedSum ((addr, bals) # rest) a =
     (if addr = a then BalanceOfColor bals ColorNew + mintedSum rest a else mintedSum rest a)"

definition mintedTokens :: "Transaction \<Rightarrow> address \<Rightarrow> int" where
  "mintedTokens tx a = sint (mintedSum (tx_outputs tx) a)"

definition requestTargets :: "Transaction \<Rightarrow> address set" where
  "requestTargets tx = rb_address ` set (tx_requests tx)"

subsection \<open>Sample transactions\<close>

definition stateBlock42 :: StateBlock where
  "stateBlock42 = \<lparr>sb_color = 42, sb_stateIndex = 1, sb_stateHash = 0, sb_timestamp = 0\<rparr>"

text \<open>A state transaction for the chain of color 42 that carries no token of color 42.\<close>

definition txNoToken :: Transaction where
  "txNoToken =
     \<lparr>tx_id = 77, tx_inputs = [5], tx_outputs = [(5, [(9, 3)])],
      tx_state = Some stateBlock42, tx_requests = []\<rparr>"

text \<open>
  A state transaction that sends the token of color 42 to address 6, and some other
  color back to its sender 5 in a later output.
\<close>

definition txTokenElsewhere :: Transaction where
  "txTokenElsewhere =
     \<lparr>tx_id = 78, tx_inputs = [5], tx_outputs = [(6, [(42, 1)]), (5, [(9, 3)])],
      tx_state = Some stateBlock42, tx_requests = []\<rparr>"

text \<open>A state transaction that returns the token of color 42 to its sender.\<close>

definition txTokenBack :: Transaction where
  "txTokenBack =
     \<lparr>tx_id = 79, tx_inputs = [5], tx_outputs = [(5, [(42, 1)])],
      tx_state = Some stateBlock42, tx_requests = []\<rparr>"

definition request8 :: RequestBlock where
  "request8 = \<lparr>rb_address = 8, rb_reqCode = 1, rb_timelock = 0, rb_args = []\<rparr>"

text \<open>Two requests to address 8, paid with one, respectively two, minted tokens.\<close>

definition txOneTokenTwoRequests :: Transaction where
  "txOneTokenTwoRequests =
     \<lparr>tx_id = 80, tx_inputs = [5], tx_outputs = [(8, [(ColorNew, 1)])],
      tx_state = None, tx_requests = [request8, request8]\<rparr>"

definition txTwoTokensTwoRequests :: Transaction where
  "txTwoTokensTwoRequests =
     \<lparr>tx_id = 81, tx_inputs = [5], tx_outputs = [(8, [(ColorNew, 2)])],
      tx_state = None, tx_requests = [request8, request8]\<rparr>"

subsection \<open>A sample request\<close>

text \<open>
  Collaborators that always succeed: the builder state is the list of the request blocks
  added so far, and the built transaction mints one token for each of them.
\<close>

definition sampleApiEnv :: "RequestBlock list apilib_env" where
  "sampleApiEnv =
     \<lparr>nc_GetConfirmedAccountOutputs = (\<lambda>addr. Inr [(1, [(0, 10)])]),
      nc_PostTransaction = (\<lambda>tx. None),
      nc_PostAndWaitForConfirmation = (\<lambda>tx. None),
      txb_NewFromOutputBalances = (\<lambda>outs. Inr []),
      txb_AddRequestBlockWithTransfer = (\<lambda>txb reqBlk addr transfer. Inr (txb @ [reqBlk])),
      txb_Build = (\<lambda>txb validate. Inr \<lparr>tx_id = 90, tx_inputs = [5],
                     tx_outputs = map (\<lambda>reqBlk. (rb_address reqBlk, [(ColorNew, 1)])) txb,
                     tx_state = None, tx_requests = txb\<rparr>),
      tx_Sign = (\<lambda>tx addr. tx),
      subs_SubscribeMulti = (\<lambda>hosts topic quorum. None),
      subs_WaitForPatterns = (\<lambda>patterns timeout quorum. True),
      fmt_Duration = (\<lambda>d. ''1s'')\<rparr>"

definition blockBool :: RequestBlockParams where
  "blockBool = \<lparr>TargetSCAddress = 8, RequestCode = 1, Timelock = 0, Transfer = [],
                Vars = [(''flag'', GoBool True)]\<rparr>"

definition parBool :: CreateRequestTransactionParams where
  "parBool = \<lparr>SenderSigScheme = 5, BlockParams = [blockBool], Post = True,
              WaitForConfirmation = False, WaitForCompletion = False, PublisherHosts = [],
              PublisherQuorum = 0, Timeout = 0\<rparr>"

subsection \<open>The clock of a task\<close>

text \<open>
  \<open>tick\<close> is what \<open>runTask\<close> does to \<open>vmctx.Timestamp\<close> after each request.
  \<open>keepsClock\<close> says of the collaborators that \<open>runTheRequest\<close> leaves the timestamp
  and the entropy of the context as they are.
\<close>

definition keepsClock :: "('txb, 'vs, 'su, 'bt) host \<Rightarrow> bool" where
  "keepsClock H \<longleftrightarrow>
     (\<forall>vmctx heap. vmctx_Timestamp (fst (h_runTheRequest H vmctx heap)) = vmctx_Timestamp vmctx
                  \<and> vmctx_Entropy (fst (h_runTheRequest H vmctx heap)) = vmctx_Entropy vmctx)"

definition tick :: "int64 \<Rightarrow> int64" where
  "tick t = (if t \<noteq> 0 then t + 1 else t)"

subsection \<open>A sample state package and sample tasks\<close>

text \<open>
  For the sample runs the parameters of package \<open>state\<close> are filled in after the data
  model of the specification (section 3): a state update is the identifier of its request
  and a timestamp ("tagged with the originating request identifier and a timestamp"), a
  batch is a state index and its state updates, and a virtual state is its state index
  and the requests applied to it.
\<close>

type_synonym sample_vs = "uint32 \<times> RequestId list"
type_synonym sample_su = "RequestId \<times> int64"
type_synonym sample_bt = "uint32 \<times> sample_su list"

text \<open>
  Modelled from the spec: \<open>state.NewBatch\<close> is not among the sources. A batch is "an
  ordered, non-empty sequence of State Updates sharing one target state index" (section
  3), and a run that produces zero state updates reports an error (section 4.5, step 3):
  the empty list is rejected.
\<close>

definition NewBatch :: "sample_su list \<Rightarrow> error + sample_bt" where
  "NewBatch stateUpdates =
     (if stateUpdates = [] then Inl (Error ''batch can't be empty'') else Inr (0, stateUpdates))"

text \<open>
  Modelled from the spec: the other operations of package \<open>state\<close>, for the sample runs.
  Applying a batch needs the batch to be for the next state index ("= previous
  virtual-state index + 1") and advances the state to it ("advancing Virtual State by
  exactly one index", glossary); a clone has the content of its original.
\<close>

definition sampleState :: "(sample_vs, sample_su, sample_bt) state_pkg" where
  "sampleState =
     \<lparr>st_NilStateUpdate = ((0, 0), 0),
      st_NewStateUpdate = (\<lambda>rid. (rid, 0)),
      st_WithTimestamp = (\<lambda>su ts. (fst su, ts)),
      st_ApplyStateUpdate = (\<lambda>vs su. (fst vs, snd vs @ [fst su])),
      st_NewBatch = NewBatch,
      st_WithStateIndex = (\<lambda>bt i. (i, snd bt)),
      st_StateIndex = fst,
      st_ApplyBatch = (\<lambda>vs bt. if fst bt = fst vs + 1
                                 then (None, (fst bt, snd vs @ map fst (snd bt)))
                                 else (Some (Error ''wrong state index''), vs)),
      st_Hash = (\<lambda>vs. unat (fst vs) + length (snd vs)),
      st_Timestamp = (\<lambda>vs. 0),
      st_Clone = (\<lambda>vs. vs),
      st_NewVariableState = (\<lambda>vs. vs)\<rparr>"

text \<open>
  Collaborators for the sample runs: a builder is the list of the colored balances it
  holds, \<open>EraseColor\<close> fails when the color is missing (section 4.1), the processor
  changes nothing, and the daemon is running with no worker.
\<close>

definition sampleHost0 :: "counters host0" where
  "sampleHost0 =
     \<lparr>h0_NewTxBuilder = (\<lambda>bals col addr. Inr (concat (map snd bals))),
      h0_BatchHash = (\<lambda>reqids ts. length reqids),
      h0_AddressString = (\<lambda>addr. ''address''),
      h0_HashString = (\<lambda>h. ''hash''),
      h0_EraseColor = (\<lambda>txb addr col n.
         if lookup0 txb col <s n then (Some (Error ''not enough balance''), txb)
         else (None, assign txb col (lookup0 txb col - n))),
      h0_Finalize = (\<lambda>txb idx h.
         \<lparr>tx_id = 92, tx_inputs = [5], tx_outputs = [(5, txb)],
          tx_state = Some \<lparr>sb_color = 42, sb_stateIndex = idx, sb_stateHash = h, sb_timestamp = 0\<rparr>,
          tx_requests = []\<rparr>)\<rparr>"

definition nilProcessor :: "(counters, sample_vs, sample_su) Processor" where
  "nilProcessor vmctx heap = (vmctx, heap)"

definition sampleRequests :: "RequestRef list" where
  "sampleRequests = [\<lparr>rr_Tx = 100, rr_Index = 0\<rparr>, \<lparr>rr_Tx = 101, rr_Index = 0\<rparr>,
                     \<lparr>rr_Tx = 102, rr_Index = 0\<rparr>]"

definition sampleTask0 :: "sample_bt VMTask0" where
  "sampleTask0 =
     \<lparr>ctx0_ProgramHash = 7, ctx0_Address = 5, ctx0_Color = 42,
      ctx0_Balances = [(1, [(42, 1), (100, 1), (101, 1)])],
      ctx0_Requests = sampleRequests, ctx0_Timestamp = 1000, ctx0_VariableState = 0,
      ctx0_ResultBatch = None, ctx0_ResultTransaction = None\<rparr>"


definition sampleHeap :: "sample_vs list" where
  "sampleHeap = [(0, [])]"

definition sampleHost :: "(counters, sample_vs, sample_su, sample_bt) host" where
  "sampleHost =
     \<lparr>h_NewFromAddressBalances = (\<lambda>addr bals. Inr (concat (map snd bals))),
      h_BatchHash = (\<lambda>reqids ts leader. length reqids),
      h_AddressString = (\<lambda>addr. ''address''),
      h_HashString = (\<lambda>h. ''hash''),
      h_createVMContext = (\<lambda>ctx txb heap.
         Inr (\<lparr>vmctx_RequestRef = \<lparr>rr_Tx = 0, rr_Index = 0\<rparr>, vmctx_StateUpdate = ((0, 0), 0),
               vmctx_VirtualState = length heap, vmctx_Timestamp = ctx_Timestamp ctx,
               vmctx_Entropy = 0, vmctx_TxBuilder = txb\<rparr>,
              heap @ [heap ! ctx_VirtualState ctx])),
      h_runTheRequest = (\<lambda>vmctx heap. (vmctx, heap)),
      h_HashData = Suc,
      h_SetStateParams = (\<lambda>txb idx h ts. (None, txb)),
      h_Build = (\<lambda>txb validate. Inr txTokenBack)\<rparr>"

definition sampleTask :: "int64 \<Rightarrow> RequestRef list \<Rightarrow> sample_bt VMTask" where
  "sampleTask ts reqs =
     \<lparr>ctx_Address = 5, ctx_Balances = [(1, [(42, 1), (100, 1), (101, 1)])],
      ctx_Requests = reqs, ctx_Timestamp = ts, ctx_LeaderPeerIndex = 0, ctx_VirtualState = 0,
      ctx_ResultBatch = None, ctx_ResultTransaction = None\<rparr>"

definition emptyDaemon :: "'w daemon" where
  "emptyDaemon = \<lparr>d_stopped = False, d_workers = []\<rparr>"

definition sampleContext :: "int64 \<Rightarrow> (counters, sample_su) VMContext" where
  "sampleContext ts =
     \<lparr>vmctx_RequestRef = \<lparr>rr_Tx = 0, rr_Index = 0\<rparr>, vmctx_StateUpdate = ((0, 0), 0),
      vmctx_VirtualState = 1, vmctx_Timestamp = ts, vmctx_Entropy = 0,
      vmctx_TxBuilder = [(42, 1), (100, 1), (101, 1)]\<rparr>"


section \<open>Properties of the transaction analysis\<close>

subsection \<open>Counters\<close>

lemma lookup0_assign: "lookup0 (assign m k v) k' = (if k = k' then v else lookup0 m k')"
  by (induction m) auto

lemma keys_assign: "fst ` set (assign m k v) = insert k (fst ` set m)"
  by (induction m) force+

lemma distinct_assign: "distinct (map fst m) \<Longrightarrow> distinct (map fst (assign m k v))"
  by (induction m) (auto simp: keys_assign)

lemma lookup0_entry: "distinct (map fst m) \<Longrightarrow> (a, n) \<in> set m \<Longrightarrow> lookup0 m a = n"
  by (induction m) (auto simp: rev_image_eqI)

lemma entry_lookup0: "a \<in> fst ` set m \<Longrightarrow> (a, lookup0 m a) \<in> set m"
  by (induction m) force+

lemma lookup0_mintedLoop:
  "lookup0 (numMintedTokensByAddr (mintedLoop outs prop)) a =
   lookup0 (numMintedTokensByAddr prop) a + mintedSum outs a"
  by (induction outs "prop" rule: mintedLoop.induct) (auto simp: Let_def lookup0_assign)

lemma lookup0_countMintedTokens:
  "lookup0 (numMintedTokensByAddr (countMintedTokens prop tx)) a = mintedSum (tx_outputs tx) a"
  by (simp add: countMintedTokens_def lookup0_mintedLoop)

lemma lookup0_countRequests:
  "lookup0 (countRequests reqs m) a =
   lookup0 m a + of_nat (length (filter (\<lambda>reqBlk. rb_address reqBlk = a) reqs))"
  by (induction reqs arbitrary: m) (auto simp: lookup0_assign)

lemma keys_countRequests:
  "fst ` set (countRequests reqs m) = fst ` set m \<union> rb_address ` set reqs"
  by (induction reqs arbitrary: m) (auto simp: keys_assign)

lemma distinct_countRequests:
  "distinct (map fst m) \<Longrightarrow> distinct (map fst (countRequests reqs m))"
  by (induction reqs arbitrary: m) (auto simp: distinct_assign)

lemma minted_stateOutputLoop:
  "numMintedTokensByAddr (snd (stateOutputLoop outs v prop)) = numMintedTokensByAddr prop"
  by (induction outs v "prop" rule: stateOutputLoop.induct) (auto simp: Let_def)

lemma minted_stateOutputLoop':
  "stateOutputLoop outs v prop = (e, prop') \<Longrightarrow> numMintedTokensByAddr prop' = numMintedTokensByAddr prop"
  using minted_stateOutputLoop [of outs v "prop"] by simp

lemma minted_analyzeStateBlock:
  "analyzeStateBlock prop tx = (e, prop') \<Longrightarrow> numMintedTokensByAddr prop' = numMintedTokensByAddr prop"
  by (auto simp: analyzeStateBlock_def Let_def split: option.splits prod.splits list.splits if_splits
      dest: minted_stateOutputLoop')

lemma tokensMissing_iff:
  "tokensMissing prop (countRequests reqs []) \<longleftrightarrow>
   (\<exists>a \<in> rb_address ` set reqs.
      lookup0 (numMintedTokensByAddr prop) a <s
      of_nat (length (filter (\<lambda>reqBlk. rb_address reqBlk = a) reqs)))"
proof -
  let ?m = "countRequests reqs []"
  have d: "distinct (map fst ?m)" by (simp add: distinct_countRequests)
  have k: "fst ` set ?m = rb_address ` set reqs" by (simp add: keys_countRequests)
  have l: "lookup0 ?m a = of_nat (length (filter (\<lambda>reqBlk. rb_address reqBlk = a) reqs))" for a
    by (simp add: lookup0_countRequests)
  show ?thesis
  proof
    assume "tokensMissing prop ?m"
    then obtain a n where an: "(a, n) \<in> set ?m" and lt: "lookup0 (numMintedTokensByAddr prop) a <s n"
      by (auto simp: tokensMissing_def list_ex_iff)
    from an have "a \<in> fst ` set ?m" by (simp add: rev_image_eqI)
    moreover from d an have "lookup0 ?m a = n" by (rule lookup0_entry)
    ultimately show "\<exists>a \<in> rb_address ` set reqs.
      lookup0 (numMintedTokensByAddr prop) a <s
      of_nat (length (filter (\<lambda>reqBlk. rb_address reqBlk = a) reqs))"
      using lt k l by metis
  next
    assume "\<exists>a \<in> rb_address ` set reqs.
      lookup0 (numMintedTokensByAddr prop) a <s
      of_nat (length (filter (\<lambda>reqBlk. rb_address reqBlk = a) reqs))"
    then obtain a where a: "a \<in> fst ` set ?m"
      and lt: "lookup0 (numMintedTokensByAddr prop) a <s lookup0 ?m a"
      using k l by auto
    from a have "(a, lookup0 ?m a) \<in> set ?m" by (rule entry_lookup0)
    with lt show "tokensMissing prop ?m"
      by (auto simp: tokensMissing_def list_ex_iff)
  qed
qed

lemma sint_count:
  assumes "length reqs < 2 ^ 63"
  shows "sint (of_nat (length (filter P reqs)) :: int64) = int (length (filter P reqs))"
proof -
  have "length (filter P reqs) \<le> length reqs" by simp
  from this assms have "length (filter P reqs) < 2 ^ 63" by (rule le_less_trans)
  then have "int (length (filter P reqs)) < 2 ^ 63"
    by (metis of_nat_less_iff of_nat_numeral of_nat_power)
  moreover have "- (2 ^ 63) \<le> int (length (filter P reqs))"
    by (rule order_trans [of _ 0]) simp_all
  ultimately show ?thesis
    by (simp add: signed_of_nat signed_take_bit_int_eq_self)
qed

subsection \<open>The analysis of the sample transactions\<close>

lemmas calc_defs = calcProperties_def analyzeSender_def emptyProperties_def countMintedTokens_def
     analyzeStateBlock_def analyzeRequestBlocks_def ColorNew_def Let_def word_sless_alt
     originRequestsWrong_def tokensMissing_def

lemma calc_txTokenBack:
  "calcProperties txTokenBack =
     Inr \<lparr>sender = 5, isState = True, isOrigin = False, stateAddress = 5, stateColor = 42,
          numMintedTokensByAddr = [], numMintedTokens = 0\<rparr>"
  by (simp add: calc_defs txTokenBack_def stateBlock42_def)

lemma calc_txNoToken:
  "calcProperties txNoToken =
     Inr \<lparr>sender = 5, isState = True, isOrigin = False, stateAddress = 5, stateColor = 42,
          numMintedTokensByAddr = [], numMintedTokens = 0\<rparr>"
  by (simp add: calc_defs txNoToken_def stateBlock42_def)

lemma calc_txTokenElsewhere:
  "calcProperties txTokenElsewhere =
     Inr \<lparr>sender = 5, isState = True, isOrigin = False, stateAddress = 5, stateColor = 42,
          numMintedTokensByAddr = [], numMintedTokens = 0\<rparr>"
  by (simp add: calc_defs txTokenElsewhere_def stateBlock42_def)

lemma calc_txOne:
  "calcProperties txOneTokenTwoRequests = Inl (Error '''')"
  by (simp add: calc_defs txOneTokenTwoRequests_def request8_def)

lemma calc_txTwo:
  "calcProperties txTwoTokensTwoRequests =
     Inr \<lparr>sender = 5, isState = False, isOrigin = False, stateAddress = 0, stateColor = 0,
          numMintedTokensByAddr = [(8, 2)], numMintedTokens = 2\<rparr>"
  by (simp add: calc_defs txTwoTokensTwoRequests_def request8_def)

subsection \<open>Error messages of the earlier stages\<close>

lemma senderLoop_error:
  "senderLoop ins found prop = (Some e, prop') \<Longrightarrow> e \<noteq> Error ''''"
  by (induction ins found "prop" rule: senderLoop.induct) (auto split: if_splits)

lemma sender_error: "analyzeSender prop tx = (Some e, prop') \<Longrightarrow> e \<noteq> Error ''''"
  unfolding analyzeSender_def by (rule senderLoop_error)

lemma stateOutputLoop_error:
  "stateOutputLoop outs v prop = (Some e, prop') \<Longrightarrow> e \<noteq> Error ''''"
  by (induction outs v "prop" rule: stateOutputLoop.induct) (auto simp: Let_def split: if_splits)

lemma stateBlock_error: "analyzeStateBlock prop tx = (Some e, prop') \<Longrightarrow> e \<noteq> Error ''''"
  by (auto simp: analyzeStateBlock_def Let_def split: option.splits prod.splits if_splits list.splits
      dest: stateOutputLoop_error)

lemma tokensMissing_claim:
  assumes "length (tx_requests tx) < 2 ^ 63"
    and "analyzeStateBlock (countMintedTokens ret tx) tx = (e, ret')"
  shows "tokensMissing ret' (countRequests (tx_requests tx) []) \<longleftrightarrow>
         (\<exists>a \<in> requestTargets tx. mintedTokens tx a < int (requestCount tx a))"
proof -
  have "lookup0 (numMintedTokensByAddr ret') a = mintedSum (tx_outputs tx) a" for a
    using minted_analyzeStateBlock [OF assms(2)] by (simp add: lookup0_countMintedTokens)
  then show ?thesis
    by (simp add: tokensMissing_iff requestTargets_def mintedTokens_def requestCount_def
        word_sless_alt sint_count [OF assms(1)])
qed

subsection \<open>The accessors\<close>

text \<open>
  Claim C1. For every Properties value computed from a sealed transaction, the accessor
  \<open>IsOrigin()\<close> returns the same value as \<open>IsState()\<close>: it reads the field \<open>isState\<close>,
  not the field \<open>isOrigin\<close>.
\<close>

theorem IsOrigin_is_IsState:
  "calcProperties tx = Inr prop \<Longrightarrow> IsOrigin prop = IsState prop"
  by (simp add: IsOrigin_def IsState_def)

theorem IsOrigin_is_IsState_witness:
  "\<exists>prop. calcProperties txTokenBack = Inr prop \<and> IsOrigin prop = IsState prop
      \<and> IsOrigin prop \<and> \<not> isOrigin prop"
  using IsOrigin_is_IsState [OF calc_txTokenBack] calc_txTokenBack
  by (simp add: IsOrigin_def IsState_def)

text \<open>
  Claim C8. On a Properties value with \<open>IsState()\<close> false, \<open>MustStateAddress()\<close> and
  \<open>MustStateColor()\<close> panic; with \<open>IsState()\<close> true they return the state address and the
  state color.
\<close>

theorem Must_accessors:
  "(\<not> IsState prop \<longrightarrow>
      MustStateAddress prop = Inl (Panic ''MustStateAddress: must be a state transaction'')
    \<and> MustStateColor prop = Inl (Panic ''MustStateColor: must be a state transaction''))
 \<and> (IsState prop \<longrightarrow>
      MustStateAddress prop = Inr (stateAddress prop)
    \<and> MustStateColor prop = Inr (stateColor prop))"
  by (simp add: IsState_def MustStateAddress_def MustStateColor_def)

theorem Must_accessors_witness:
  "\<not> IsState emptyProperties
   \<and> MustStateAddress emptyProperties = Inl (Panic ''MustStateAddress: must be a state transaction'')
   \<and> MustStateColor emptyProperties = Inl (Panic ''MustStateColor: must be a state transaction'')
   \<and> IsState (emptyProperties\<lparr>isState := True, stateAddress := 5, stateColor := 42\<rparr>)
   \<and> MustStateAddress (emptyProperties\<lparr>isState := True, stateAddress := 5, stateColor := 42\<rparr>) = Inr 5
   \<and> MustStateColor (emptyProperties\<lparr>isState := True, stateAddress := 5, stateColor := 42\<rparr>) = Inr 42"
proof -
  have a: "\<not> IsState emptyProperties"
    by (simp add: IsState_def emptyProperties_def)
  have b: "IsState (emptyProperties\<lparr>isState := True, stateAddress := 5, stateColor := 42\<rparr>)"
    by (simp add: IsState_def)
  from a Must_accessors [of emptyProperties]
  have c: "MustStateAddress emptyProperties = Inl (Panic ''MustStateAddress: must be a state transaction'')
         \<and> MustStateColor emptyProperties = Inl (Panic ''MustStateColor: must be a state transaction'')"
    by blast
  from b Must_accessors [of "emptyProperties\<lparr>isState := True, stateAddress := 5, stateColor := 42\<rparr>"]
  have d: "MustStateAddress (emptyProperties\<lparr>isState := True, stateAddress := 5, stateColor := 42\<rparr>) = Inr 5
         \<and> MustStateColor (emptyProperties\<lparr>isState := True, stateAddress := 5, stateColor := 42\<rparr>) = Inr 42"
    by simp
  from a b c d show ?thesis by blast
qed

subsection \<open>The state block with an assigned color\<close>

text \<open>
  Claim C2 says that, for a state block with an assigned color, the analysis succeeds
  only if exactly one output carries that color, with amount 1, at the sender's address.
  The code rejects a running sum above 1 and compares the address of the last output it
  visited with the sender; it never requires the sum to be 1, and the last output need not
  carry the color. So \<open>txNoToken\<close>, which has no output of color 42, is accepted, and so is
  \<open>txTokenElsewhere\<close>, which sends the token of color 42 to address 6 and not to its
  sender 5.
\<close>

theorem state_token_not_required:
  "sb_color stateBlock42 \<noteq> ColorNew
   \<and> BalanceOfColor [(9, 3)] (sb_color stateBlock42) = 0
   \<and> (\<exists>prop. calcProperties txNoToken = Inr prop)
   \<and> (\<exists>prop. calcProperties txTokenElsewhere = Inr prop \<and> stateAddress prop = 5)"
  by (simp add: calc_txNoToken calc_txTokenElsewhere stateBlock42_def ColorNew_def)

subsection \<open>Request tokens\<close>

text \<open>
  Claim C7. For a transaction with at least one request block (and fewer than \<open>2^63\<close> of
  them, so that the \<open>int64\<close> request counters do not wrap), the analysis fails with an
  error whenever some request target address has more request blocks than tokens of the
  new color sent to it; when every target address has at least as many minted tokens as
  requests, the analysis does not fail with the error of this check, and it succeeds if
  the earlier checks (one sender, the state block, the origin rule) have passed.
\<close>

theorem request_tokens_checked:
  assumes "tx_requests tx \<noteq> []" and "length (tx_requests tx) < 2 ^ 63"
  shows "((\<exists>a \<in> requestTargets tx. mintedTokens tx a < int (requestCount tx a)) \<longrightarrow>
            (\<exists>err. calcProperties tx = Inl err))
       \<and> ((\<forall>a \<in> requestTargets tx. int (requestCount tx a) \<le> mintedTokens tx a) \<longrightarrow>
            calcProperties tx \<noteq> Inl (Error '''')
          \<and> (\<forall>ret ret'. analyzeSender emptyProperties tx = (None, ret) \<longrightarrow>
                analyzeStateBlock (countMintedTokens ret tx) tx = (None, ret') \<longrightarrow>
                \<not> (isOrigin ret' \<and> originRequestsWrong ret' (countRequests (tx_requests tx) [])) \<longrightarrow>
                calcProperties tx = Inr ret'))"
proof (intro conjI impI allI)
  assume short: "\<exists>a \<in> requestTargets tx. mintedTokens tx a < int (requestCount tx a)"
  obtain e1 ret where s: "analyzeSender emptyProperties tx = (e1, ret)"
    by (cases "analyzeSender emptyProperties tx")
  obtain e2 ret' where b: "analyzeStateBlock (countMintedTokens ret tx) tx = (e2, ret')"
    by (cases "analyzeStateBlock (countMintedTokens ret tx) tx")
  from short have "tokensMissing ret' (countRequests (tx_requests tx) [])"
    by (simp add: tokensMissing_claim [OF assms(2) b])
  with assms(1) have "analyzeRequestBlocks ret' tx \<noteq> None"
    by (simp add: analyzeRequestBlocks_def Let_def)
  with s b show "\<exists>err. calcProperties tx = Inl err"
    by (cases e1; cases e2) (auto simp: calcProperties_def)
next
  assume paid: "\<forall>a \<in> requestTargets tx. int (requestCount tx a) \<le> mintedTokens tx a"
  show "calcProperties tx \<noteq> Inl (Error '''')"
  proof
    assume f: "calcProperties tx = Inl (Error '''')"
    obtain e1 ret where s: "analyzeSender emptyProperties tx = (e1, ret)"
      by (cases "analyzeSender emptyProperties tx")
    obtain e2 ret' where b: "analyzeStateBlock (countMintedTokens ret tx) tx = (e2, ret')"
      by (cases "analyzeStateBlock (countMintedTokens ret tx) tx")
    from paid have nm: "\<not> tokensMissing ret' (countRequests (tx_requests tx) [])"
      by (simp add: tokensMissing_claim [OF assms(2) b] not_less)
    have e1: "e1 \<noteq> Some (Error '''')"
      using s sender_error by blast
    have e2: "e2 \<noteq> Some (Error '''')"
      using b stateBlock_error by blast
    from nm have "analyzeRequestBlocks ret' tx \<noteq> Some (Error '''')"
      by (simp add: analyzeRequestBlocks_def Let_def)
    with f s b e1 e2 show False
      by (cases e1; cases e2) (auto simp: calcProperties_def split: option.splits)
  qed
next
  fix ret ret'
  assume paid: "\<forall>a \<in> requestTargets tx. int (requestCount tx a) \<le> mintedTokens tx a"
    and s: "analyzeSender emptyProperties tx = (None, ret)"
    and b: "analyzeStateBlock (countMintedTokens ret tx) tx = (None, ret')"
    and o: "\<not> (isOrigin ret' \<and> originRequestsWrong ret' (countRequests (tx_requests tx) []))"
  from paid have "\<not> tokensMissing ret' (countRequests (tx_requests tx) [])"
    by (simp add: tokensMissing_claim [OF assms(2) b] not_less)
  with o assms(1) have "analyzeRequestBlocks ret' tx = None"
    by (simp add: analyzeRequestBlocks_def Let_def)
  with s b show "calcProperties tx = Inr ret'"
    by (simp add: calcProperties_def)
qed

theorem request_tokens_checked_witness:
  "tx_requests txOneTokenTwoRequests \<noteq> [] \<and> length (tx_requests txOneTokenTwoRequests) < 2 ^ 63
   \<and> (\<exists>a \<in> requestTargets txOneTokenTwoRequests.
          mintedTokens txOneTokenTwoRequests a < int (requestCount txOneTokenTwoRequests a))
   \<and> (\<exists>err. calcProperties txOneTokenTwoRequests = Inl err)
   \<and> tx_requests txTwoTokensTwoRequests \<noteq> [] \<and> length (tx_requests txTwoTokensTwoRequests) < 2 ^ 63
   \<and> requestTargets txTwoTokensTwoRequests = {8}
   \<and> int (requestCount txTwoTokensTwoRequests 8) \<le> mintedTokens txTwoTokensTwoRequests 8
   \<and> calcProperties txTwoTokensTwoRequests \<noteq> Inl (Error '''')
   \<and> (\<exists>ret'. calcProperties txTwoTokensTwoRequests = Inr ret')"
proof -
  have n1: "tx_requests txOneTokenTwoRequests \<noteq> []"
    and b1: "length (tx_requests txOneTokenTwoRequests) < 2 ^ 63"
    by (simp_all add: txOneTokenTwoRequests_def)
  have short: "\<exists>a \<in> requestTargets txOneTokenTwoRequests.
          mintedTokens txOneTokenTwoRequests a < int (requestCount txOneTokenTwoRequests a)"
    by (simp add: requestTargets_def mintedTokens_def requestCount_def txOneTokenTwoRequests_def
        request8_def)
  have n2: "tx_requests txTwoTokensTwoRequests \<noteq> []"
    and b2: "length (tx_requests txTwoTokensTwoRequests) < 2 ^ 63"
    by (simp_all add: txTwoTokensTwoRequests_def)
  have paid: "\<forall>a \<in> requestTargets txTwoTokensTwoRequests.
          int (requestCount txTwoTokensTwoRequests a) \<le> mintedTokens txTwoTokensTwoRequests a"
    by (simp add: requestTargets_def mintedTokens_def requestCount_def txTwoTokensTwoRequests_def
        request8_def)
  have s: "analyzeSender emptyProperties txTwoTokensTwoRequests =
             (None, emptyProperties\<lparr>sender := 5\<rparr>)"
    by (simp add: analyzeSender_def txTwoTokensTwoRequests_def)
  have b: "analyzeStateBlock (countMintedTokens (emptyProperties\<lparr>sender := 5\<rparr>) txTwoTokensTwoRequests)
             txTwoTokensTwoRequests =
           (None, emptyProperties\<lparr>sender := 5, numMintedTokensByAddr := [(8, 2)], numMintedTokens := 2\<rparr>)"
    by (simp add: analyzeStateBlock_def countMintedTokens_def txTwoTokensTwoRequests_def
        emptyProperties_def Let_def)
  have o: "\<not> isOrigin (emptyProperties\<lparr>sender := 5, numMintedTokensByAddr := [(8, 2)], numMintedTokens := 2\<rparr>)"
    by (simp add: emptyProperties_def)
  from request_tokens_checked [OF n1 b1] short
  have r1: "\<exists>err. calcProperties txOneTokenTwoRequests = Inl err" by blast
  from request_tokens_checked [OF n2 b2] paid s b o
  have r2: "calcProperties txTwoTokensTwoRequests \<noteq> Inl (Error '''')"
    and r3: "\<exists>ret'. calcProperties txTwoTokensTwoRequests = Inr ret'" by blast+
  have t: "requestTargets txTwoTokensTwoRequests = {8}"
    and p: "int (requestCount txTwoTokensTwoRequests 8) \<le> mintedTokens txTwoTokensTwoRequests 8"
    by (simp_all add: requestTargets_def mintedTokens_def requestCount_def
        txTwoTokensTwoRequests_def request8_def)
  from n1 b1 short r1 n2 b2 t p r2 r3 show ?thesis by blast
qed

section \<open>Properties of the argument conversion\<close>

lemma convertLoop_None_iff:
  "convertLoop vars args = None \<longleftrightarrow> (\<exists>(k, v) \<in> set vars. \<not> recognized v)"
proof (induction vars arbitrary: args)
  case Nil
  then show ?case by simp
next
  case (Cons kv vars)
  obtain k v where kv: "kv = (k, v)" by (cases kv)
  show ?case by (cases v) (simp_all add: kv Cons.IH)
qed

lemma convertArgs_None_iff:
  "convertArgs vars = None \<longleftrightarrow> (\<exists>(k, v) \<in> set vars. \<not> recognized v)"
  by (simp add: convertArgs_def convertLoop_None_iff)

lemma integerCase_recognized: "integerCase v \<Longrightarrow> recognized v"
  by (cases v) auto

lemma kvGet_kvSet: "kvGet (kvSet m key v) key' = (if key = key' then Some v else kvGet m key')"
  by (induction m) auto

lemma convertLoop_other_key:
  "key \<notin> fst ` set vars \<Longrightarrow> convertLoop vars args = Some m \<Longrightarrow> kvGet m key = kvGet args key"
  by (induction vars arbitrary: args) (auto split: govalue.splits simp: kvGet_kvSet)

lemma convertLoop_uint64:
  "(key, GoUint64 w) \<in> set vars \<Longrightarrow> distinct (map fst vars) \<Longrightarrow> convertLoop vars args = Some m
   \<Longrightarrow> kvGet m key = Some (KInt64 w)"
proof (induction vars arbitrary: args)
  case Nil
  then show ?case by simp
next
  case (Cons kv vars)
  obtain k v where kv: "kv = (k, v)" by (cases kv)
  show ?case
  proof (cases "k = key")
    case True
    with Cons.prems kv have v: "v = GoUint64 w" and notin: "key \<notin> fst ` set vars"
      by (auto simp: rev_image_eqI)
    from Cons.prems(3) kv True v have "convertLoop vars (kvSet args key (KInt64 w)) = Some m"
      by simp
    from convertLoop_other_key [OF notin this] show ?thesis by (simp add: kvGet_kvSet)
  next
    case False
    with Cons.prems kv have mem: "(key, GoUint64 w) \<in> set vars" and d: "distinct (map fst vars)"
      by auto
    from Cons.prems(3) kv obtain args' where "convertLoop vars args' = Some m"
      by (auto split: govalue.splits)
    from Cons.IH [OF mem d this] show ?thesis .
  qed
qed

lemma sint_negative:
  assumes "2 ^ 63 \<le> unat (w :: 64 word)"
  shows "sint w < 0"
proof -
  from assms have "int (2 ^ 63) \<le> int (unat w)" by (rule iffD2 [OF of_nat_le_iff])
  then have u: "(2 :: int) ^ 63 \<le> uint w" by simp
  have "sint w \<le> uint w - 2 ^ 64"
    using signed_take_bit_int_less_eq [OF u] by (simp add: sint_uint)
  moreover have "uint w < 2 ^ 64"
    using uint_lt2p [of w] by simp
  ultimately show ?thesis by linarith
qed

lemma create_parBool:
  "CreateRequestTransaction sampleApiEnv parBool =
     (Inl (Error ''wrong arguments''), [GetConfirmedAccountOutputs 5, NewFromOutputBalances])"
  by (simp add: CreateRequestTransaction_def sampleApiEnv_def parBool_def blockBool_def
      convertArgs_def Let_def NewRequestBlock_def WithTimelock_def SetArgs_def)

lemma addBlocks_step:
  "addBlocks env (blockPar # rest) txb calls =
     (case convertArgs (Vars blockPar) of
        None \<Rightarrow> (Inl (Error ''wrong arguments''), calls)
      | Some args \<Rightarrow>
          (case txb_AddRequestBlockWithTransfer env txb
                  (SetArgs (WithTimelock (NewRequestBlock (TargetSCAddress blockPar) (RequestCode blockPar))
                     (Timelock blockPar)) args)
                  (TargetSCAddress blockPar) (Transfer blockPar) of
             Inl err \<Rightarrow> (Inl err, calls @ [AddRequestBlockWithTransfer (TargetSCAddress blockPar)])
           | Inr txb' \<Rightarrow>
               addBlocks env rest txb' (calls @ [AddRequestBlockWithTransfer (TargetSCAddress blockPar)])))"
  by (simp add: Let_def)

lemma addBlocks_calls:
  "set (snd (addBlocks env blocks txb calls)) \<subseteq> set calls \<union> range AddRequestBlockWithTransfer"
proof (induction blocks arbitrary: txb calls)
  case Nil
  show ?case by simp
next
  case (Cons blockPar rest)
  have ih: "set (snd (addBlocks env rest txb' (calls @ [AddRequestBlockWithTransfer a])))
            \<subseteq> set calls \<union> range AddRequestBlockWithTransfer" for txb' a
    using Cons.IH [of txb' "calls @ [AddRequestBlockWithTransfer a]"] by auto
  show ?case
    unfolding addBlocks_step
    by (simp split: option.split sum.split add: ih)
qed

lemma addBlocks_keeps:
  "c \<in> set calls \<Longrightarrow> c \<in> set (snd (addBlocks env blocks txb calls))"
proof (induction blocks arbitrary: txb calls)
  case Nil
  then show ?case by simp
next
  case (Cons blockPar rest)
  have ih: "c \<in> set (snd (addBlocks env rest txb' (calls @ [d])))" for txb' d
    using Cons.IH [of "calls @ [d]" txb'] Cons.prems by simp
  show ?case
    unfolding addBlocks_step
    using Cons.prems by (simp split: option.split sum.split add: ih)
qed

lemma addBlocks_rejects:
  "blockPar \<in> set blocks \<Longrightarrow> convertArgs (Vars blockPar) = None \<Longrightarrow>
   \<exists>err. fst (addBlocks env blocks txb calls) = Inl err"
proof (induction blocks arbitrary: txb calls)
  case Nil
  then show ?case by simp
next
  case (Cons b rest)
  show ?case
  proof (cases "b = blockPar")
    case True
    with Cons.prems(2) show ?thesis unfolding addBlocks_step by simp
  next
    case False
    with Cons.prems have "blockPar \<in> set rest" by simp
    from Cons.IH [OF this Cons.prems(2)]
    have ih: "\<exists>err. fst (addBlocks env rest txb' calls') = Inl err" for txb' calls' .
    show ?thesis
      unfolding addBlocks_step
      by (simp split: option.split sum.split add: ih)
  qed
qed

text \<open>
  Claim C9, as far as it holds. When some block of \<open>par.BlockParams\<close> has an argument of
  a type the switch does not list, \<open>convertArgs\<close> returns \<open>nil\<close> for that block and
  \<open>CreateRequestTransaction\<close> returns an error; \<open>Build\<close> is never called and nothing is
  posted or subscribed to. The confirmed outputs of the sender have been fetched from the
  node before, and that is the only call over the network.
\<close>

theorem unrecognized_argument_rejected:
  assumes "blockPar \<in> set (BlockParams par)" and "(k, v) \<in> set (Vars blockPar)"
    and "\<not> recognized v"
  shows "convertArgs (Vars blockPar) = None
       \<and> (\<exists>err. fst (CreateRequestTransaction env par) = Inl err)
       \<and> Build \<notin> set (snd (CreateRequestTransaction env par))
       \<and> GetConfirmedAccountOutputs (SenderSigScheme par) \<in> set (snd (CreateRequestTransaction env par))
       \<and> (\<forall>c \<in> set (snd (CreateRequestTransaction env par)).
            isNetworkCall c \<longrightarrow> c = GetConfirmedAccountOutputs (SenderSigScheme par))"
proof -
  let ?get = "GetConfirmedAccountOutputs (SenderSigScheme par)"
  from assms(2,3) have n: "convertArgs (Vars blockPar) = None"
    by (auto simp: convertArgs_None_iff)
  have "\<exists>err calls. CreateRequestTransaction env par = (Inl err, calls)
          \<and> ?get \<in> set calls
          \<and> set calls \<subseteq> {?get, NewFromOutputBalances} \<union> range AddRequestBlockWithTransfer"
  proof (cases "nc_GetConfirmedAccountOutputs env (SenderSigScheme par)")
    case (Inl err)
    then show ?thesis by (simp add: CreateRequestTransaction_def Let_def)
  next
    case outs: (Inr allOuts)
    show ?thesis
    proof (cases "txb_NewFromOutputBalances env allOuts")
      case (Inl err)
      with outs show ?thesis by (simp add: CreateRequestTransaction_def Let_def)
    next
      case (Inr txb)
      obtain r calls1 where ab: "addBlocks env (BlockParams par) txb [?get, NewFromOutputBalances] = (r, calls1)"
        by (cases "addBlocks env (BlockParams par) txb [?get, NewFromOutputBalances]")
      from addBlocks_rejects [OF assms(1) n, of env txb "[?get, NewFromOutputBalances]"] ab
      obtain err where r: "r = Inl err" by auto
      from addBlocks_calls [of env "BlockParams par" txb "[?get, NewFromOutputBalances]"] ab
      have c1: "set calls1 \<subseteq> {?get, NewFromOutputBalances} \<union> range AddRequestBlockWithTransfer"
        by simp
      from addBlocks_keeps [of ?get "[?get, NewFromOutputBalances]" env "BlockParams par" txb] ab
      have first: "?get \<in> set calls1" by simp
      have "CreateRequestTransaction env par = (Inl err, calls1)"
        using outs Inr ab r by (simp add: CreateRequestTransaction_def Let_def)
      with c1 first show ?thesis by blast
    qed
  qed
  then obtain err calls where res: "CreateRequestTransaction env par = (Inl err, calls)"
    and first: "?get \<in> set calls"
    and sub: "set calls \<subseteq> {?get, NewFromOutputBalances} \<union> range AddRequestBlockWithTransfer"
    by blast
  from sub have nb: "Build \<notin> set calls" by auto
  have net: "c = ?get" if "c \<in> set calls" and "isNetworkCall c" for c
  proof -
    from sub that(1) have "c = ?get \<or> c = NewFromOutputBalances \<or> c \<in> range AddRequestBlockWithTransfer"
      by auto
    with that(2) show ?thesis by auto
  qed
  show ?thesis
    unfolding res fst_conv snd_conv
    using n first nb net by blast
qed

theorem unrecognized_argument_rejected_witness:
  "blockBool \<in> set (BlockParams parBool) \<and> (''flag'', GoBool True) \<in> set (Vars blockBool)
   \<and> \<not> recognized (GoBool True)
   \<and> convertArgs (Vars blockBool) = None
   \<and> (\<exists>err. fst (CreateRequestTransaction sampleApiEnv parBool) = Inl err)
   \<and> Build \<notin> set (snd (CreateRequestTransaction sampleApiEnv parBool))
   \<and> GetConfirmedAccountOutputs 5 \<in> set (snd (CreateRequestTransaction sampleApiEnv parBool))"
proof -
  have a: "blockBool \<in> set (BlockParams parBool)" by (simp add: parBool_def)
  have b: "(''flag'', GoBool True) \<in> set (Vars blockBool)" by (simp add: blockBool_def)
  have c: "\<not> recognized (GoBool True)" by simp
  have s: "SenderSigScheme parBool = 5" by (simp add: parBool_def)
  from unrecognized_argument_rejected [OF a b c, of sampleApiEnv] a b c s
  show ?thesis by simp
qed

text \<open>
  Claim C9 also says that the rejection comes before any network interaction. It does
  not: \<open>GetConfirmedAccountOutputs\<close> is the first statement of
  \<open>CreateRequestTransaction\<close>, before the loop that converts the arguments.
\<close>

theorem rejection_after_network_call:
  "blockBool \<in> set (BlockParams parBool) \<and> (''flag'', GoBool True) \<in> set (Vars blockBool)
   \<and> \<not> recognized (GoBool True)
   \<and> CreateRequestTransaction sampleApiEnv parBool =
        (Inl (Error ''wrong arguments''), [GetConfirmedAccountOutputs 5, NewFromOutputBalances])
   \<and> \<not> (\<forall>c \<in> set (snd (CreateRequestTransaction sampleApiEnv parBool)). \<not> isNetworkCall c)"
  by (simp add: create_parBool) (simp add: parBool_def blockBool_def)

text \<open>
  Claim C10, as far as it holds. \<open>convertArgs\<close> stores a \<open>uint64\<close> argument as the
  \<open>int64\<close> with the same 64 bits, which is negative from \<open>2^63\<close> on, and it returns a map
  whenever every value has one of the integer types the switch lists (\<open>int\<close>, \<open>byte\<close>,
  \<open>int16\<close>, \<open>int32\<close>, \<open>int64\<close>, \<open>uint16\<close>, \<open>uint32\<close>, \<open>uint64\<close>).
\<close>

theorem integer_arguments_stored:
  "((\<forall>(k, v) \<in> set vars. integerCase v) \<longrightarrow> convertArgs vars \<noteq> None)
   \<and> (\<forall>args. convertArgs vars = Some args \<longrightarrow> (key, GoUint64 w) \<in> set vars \<longrightarrow>
         distinct (map fst vars) \<longrightarrow>
         kvGet args key = Some (KInt64 w) \<and> (2 ^ 63 \<le> unat w \<longrightarrow> sint w < 0))"
proof (intro conjI impI allI)
  assume "\<forall>(k, v) \<in> set vars. integerCase v"
  then have "\<not> (\<exists>(k, v) \<in> set vars. \<not> recognized v)"
    by (auto dest: integerCase_recognized)
  then show "convertArgs vars \<noteq> None" by (simp add: convertArgs_None_iff)
next
  fix args
  assume "convertArgs vars = Some args" "(key, GoUint64 w) \<in> set vars" "distinct (map fst vars)"
  then show "kvGet args key = Some (KInt64 w)"
    unfolding convertArgs_def by (intro convertLoop_uint64)
next
  assume "2 ^ 63 \<le> unat w"
  then show "sint w < 0" by (rule sint_negative)
qed

theorem integer_arguments_stored_witness:
  "(\<exists>k v. (k, v) \<in> set [(''n'', GoUint64 (2 ^ 63))] \<and> integerCase v)
   \<and> convertArgs [(''n'', GoUint64 (2 ^ 63))] = Some [(''n'', KInt64 (2 ^ 63))]
   \<and> distinct (map fst [(''n'', GoUint64 (2 ^ 63))])
   \<and> kvGet [(''n'', KInt64 (2 ^ 63))] ''n'' = Some (KInt64 (2 ^ 63))
   \<and> 2 ^ 63 \<le> unat (2 ^ 63 :: 64 word)
   \<and> sint (2 ^ 63 :: 64 word) < 0"
proof -
  have c: "convertArgs [(''n'', GoUint64 (2 ^ 63))] = Some [(''n'', KInt64 (2 ^ 63))]"
    by (simp add: convertArgs_def)
  have u: "2 ^ 63 \<le> unat (2 ^ 63 :: 64 word)" by simp
  from integer_arguments_stored [of "[(''n'', GoUint64 (2 ^ 63))]" "''n''" "2 ^ 63"] c u
  have "kvGet [(''n'', KInt64 (2 ^ 63))] ''n'' = Some (KInt64 (2 ^ 63)) \<and> sint (2 ^ 63 :: 64 word) < 0"
    by simp
  with c u show ?thesis by simp
qed

text \<open>
  Claim C10 says that no integer-typed value is rejected. The switch has no case for
  \<open>int8\<close> and none for \<open>uint\<close>: such a value takes the default branch, like any
  unrecognized type.
\<close>

theorem int8_and_uint_rejected:
  "convertArgs [(''n'', GoInt8 5)] = None \<and> convertArgs [(''n'', GoUint 5)] = None"
  by (simp add: convertArgs_def)

section \<open>Properties of the runner\<close>

lemmas sample_defs = sampleState_def NewBatch_def sampleHost0_def sampleHost_def nilProcessor_def
  sampleRequests_def sampleTask0_def sampleTask_def sampleHeap_def emptyDaemon_def

subsection \<open>Submitting a task\<close>

text \<open>
  Claim C6, for \<open>RunComputationsAsync\<close> of \<open>plugin.go\<close>. A task with zero requests is
  rejected with an error before anything else happens: no builder is constructed, and the
  daemon is left as it was, so no worker is scheduled and no callback can be invoked.
\<close>

theorem empty_task_rejected:
  "ctx_Requests ctx = [] \<Longrightarrow>
   RunComputationsAsync H vmDaemon ctx = (Some (Error ''must be at least 1 request''), vmDaemon, [])"
  by (simp add: RunComputationsAsync_def)

theorem empty_task_rejected_witness:
  "ctx_Requests (sampleTask 1000 []) = []
   \<and> RunComputationsAsync sampleHost emptyDaemon (sampleTask 1000 []) =
       (Some (Error ''must be at least 1 request''), emptyDaemon, [])"
proof -
  have e: "ctx_Requests (sampleTask 1000 []) = []" by (simp add: sampleTask_def)
  from empty_task_rejected [OF e, of sampleHost emptyDaemon] e show ?thesis by simp
qed

lemma RunComputationsAsync_vm_sample:
  "RunComputationsAsync_vm sampleHost0 [(''hash'', nilProcessor)] emptyDaemon
     (sampleTask0\<lparr>ctx0_Requests := []\<rparr>) =
   (None,
    \<lparr>d_stopped = False,
      d_workers = [(''address.hash'',
                    (sampleTask0\<lparr>ctx0_Requests := []\<rparr>, [(42, 1), (100, 1), (101, 1)], nilProcessor))]\<rparr>,
    [NewTxBuilder, BackgroundWorker ''address.hash''])"
  by (simp add: RunComputationsAsync_vm_def getProcessor_def daemon_BackgroundWorker_def
      TakeRequestIds_def Let_def sampleHost0_def emptyDaemon_def sampleTask0_def)

text \<open>
  Claim C6 does not hold for \<open>RunComputationsAsync\<close> of the older runner, which has no
  such check: with a registered processor it constructs the builder and schedules the
  worker for a task with zero requests, and returns no error.
\<close>

theorem empty_task_scheduled_by_older_runner:
  "ctx0_Requests (sampleTask0\<lparr>ctx0_Requests := []\<rparr>) = []
   \<and> fst (RunComputationsAsync_vm sampleHost0 [(''hash'', nilProcessor)] emptyDaemon
            (sampleTask0\<lparr>ctx0_Requests := []\<rparr>)) = None
   \<and> map fst (d_workers (fst (snd (RunComputationsAsync_vm sampleHost0 [(''hash'', nilProcessor)]
            emptyDaemon (sampleTask0\<lparr>ctx0_Requests := []\<rparr>))))) = [''address.hash'']
   \<and> snd (snd (RunComputationsAsync_vm sampleHost0 [(''hash'', nilProcessor)] emptyDaemon
            (sampleTask0\<lparr>ctx0_Requests := []\<rparr>))) = [NewTxBuilder, BackgroundWorker ''address.hash'']"
  by (simp add: RunComputationsAsync_vm_sample)

subsection \<open>The hash of the resulting state\<close>

lemma runVM_sample:
  "runVM sampleState sampleHost0 nilProcessor sampleTask0 [(42, 1), (100, 1), (101, 1)] sampleHeap =
   (None,
    sampleTask0\<lparr>ctx0_ResultBatch := Some (1, [((100, 0), 0), ((101, 0), 0)]),
      ctx0_ResultTransaction := Some
        \<lparr>tx_id = 92, tx_inputs = [5], tx_outputs = [(5, [(42, 1), (100, 0), (101, 0)])],
         tx_state = Some \<lparr>sb_color = 42, sb_stateIndex = 1, sb_stateHash = 3, sb_timestamp = 0\<rparr>,
         tx_requests = []\<rparr>\<rparr>,
    [(1, [(100, 0), (101, 0)]), (0, [(100, 0), (101, 0)])],
    [OnFinish None])"
  by (simp add: runVM_def runVM_context_def runVM_finish_def sample_defs RequestId_def Let_def
      word_sless_alt)

lemma cloneAndApplyBatch_eq:
  "cloneAndApplyBatch S heap r batch =
     (fst (st_ApplyBatch S (st_Clone S (heap ! r)) batch), length heap,
      heap @ [snd (st_ApplyBatch S (st_Clone S (heap ! r)) batch)])"
  by (simp add: cloneAndApplyBatch_def Let_def split: prod.split)

text \<open>
  Claim C5, for \<open>runTask\<close> of \<open>plugin.go\<close>. After the loop over the requests has left the
  heap \<open>heap1\<close>, every object of \<open>heap1\<close> (the snapshot \<open>ctx.VirtualState\<close> of the task
  and the working snapshot of the context among them) is the same in the final heap. In
  a run that ends with \<open>OnFinish(nil)\<close>, the only new object is the clone of
  \<open>ctx.VirtualState\<close> with the batch applied, and the state hash and the timestamp given to
  \<open>SetStateParams\<close> are those of that object.
\<close>

theorem state_hash_from_second_clone:
  assumes cv: "h_createVMContext H ctx txb heap = Inr (vmctx0, heap0)"
    and lp: "runTask_requests S H (ctx_Requests ctx) vmctx0 [] heap0 = (vmctx, stateUpdates, heap1)"
    and rf: "ctx_VirtualState ctx < length heap1"
    and run: "runTask S H ctx txb heap = (ctx', heap', calls)"
  shows "(\<forall>q < length heap1. heap' ! q = heap1 ! q)
       \<and> (calls = [OnFinish None] \<longrightarrow>
            (\<exists>batch vs tx.
                ctx_ResultBatch ctx' = Some batch
              \<and> vs = snd (st_ApplyBatch S (st_Clone S (heap1 ! ctx_VirtualState ctx)) batch)
              \<and> heap' = heap1 @ [vs]
              \<and> ctx_ResultTransaction ctx' = Some tx
              \<and> h_Build H (snd (h_SetStateParams H (vmctx_TxBuilder vmctx)
                               (st_StateIndex S (heap1 ! ctx_VirtualState ctx) + 1)
                               (st_Hash S vs) (st_Timestamp S vs))) False = Inr tx))"
proof (cases "length stateUpdates = 0")
  case True
  with cv lp run show ?thesis by (auto simp: runTask_def)
next
  case False
  with cv lp run have fin: "runTask_finish S H ctx vmctx stateUpdates heap1 = (ctx', heap', calls)"
    by (simp add: runTask_def)
  show ?thesis
  proof (cases "st_NewBatch S stateUpdates")
    case (Inl err)
    with fin show ?thesis by (auto simp: runTask_finish_def)
  next
    case (Inr newBatch)
    define batch where "batch = st_WithStateIndex S newBatch (st_StateIndex S (heap1 ! ctx_VirtualState ctx) + 1)"
    define ab where "ab = st_ApplyBatch S (st_Clone S (heap1 ! ctx_VirtualState ctx)) batch"
    have cl: "cloneAndApplyBatch S heap1 (ctx_VirtualState ctx) batch = (fst ab, length heap1, heap1 @ [snd ab])"
      by (simp add: cloneAndApplyBatch_eq ab_def)
    have same: "(heap1 @ [snd ab]) ! ctx_VirtualState ctx = heap1 ! ctx_VirtualState ctx"
      using rf by (simp add: nth_append)
    from fin Inr cl have heap': "heap' = heap1 @ [snd ab]"
      by (auto simp: runTask_finish_def Let_def batch_def [symmetric]
          split: option.splits prod.splits sum.splits)
    then have frame: "\<forall>q < length heap1. heap' ! q = heap1 ! q"
      by (simp add: nth_append)
    have ok: "\<exists>tx. ctx_ResultBatch ctx' = Some batch \<and> ctx_ResultTransaction ctx' = Some tx
              \<and> h_Build H (snd (h_SetStateParams H (vmctx_TxBuilder vmctx)
                               (st_StateIndex S (heap1 ! ctx_VirtualState ctx) + 1)
                               (st_Hash S (snd ab)) (st_Timestamp S (snd ab)))) False = Inr tx"
      if "calls = [OnFinish None]"
      using fin Inr cl that same
      by (auto simp: runTask_finish_def Let_def batch_def [symmetric]
          split: option.splits prod.splits sum.splits)
    from frame heap' ok show ?thesis
      unfolding ab_def by blast
  qed
qed

lemma createVMContext_sample:
  "h_createVMContext sampleHost (sampleTask ts reqs) [(42, 1), (100, 1), (101, 1)] sampleHeap =
     Inr (sampleContext ts, [(0, []), (0, [])])"
  by (simp add: sampleHost_def sampleTask_def sampleHeap_def sampleContext_def)

lemma runTask_requests_sample:
  "runTask_requests sampleState sampleHost sampleRequests (sampleContext 1000) [] [(0, []), (0, [])] =
     ((sampleContext 1000)\<lparr>vmctx_RequestRef := \<lparr>rr_Tx = 102, rr_Index = 0\<rparr>,
         vmctx_StateUpdate := ((102, 0), 1002), vmctx_Timestamp := 1003, vmctx_Entropy := 3\<rparr>,
      [((100, 0), 1000), ((101, 0), 1001), ((102, 0), 1002)],
      [(0, []), (0, [(100, 0), (101, 0), (102, 0)])])"
  by (simp add: sampleState_def NewBatch_def sampleHost_def sampleRequests_def sampleContext_def RequestId_def Let_def)

lemma runTask_finish_sample:
  "runTask_finish sampleState sampleHost (sampleTask 1000 sampleRequests)
     ((sampleContext 1000)\<lparr>vmctx_RequestRef := \<lparr>rr_Tx = 102, rr_Index = 0\<rparr>,
         vmctx_StateUpdate := ((102, 0), 1002), vmctx_Timestamp := 1003, vmctx_Entropy := 3\<rparr>)
     [((100, 0), 1000), ((101, 0), 1001), ((102, 0), 1002)]
     [(0, []), (0, [(100, 0), (101, 0), (102, 0)])] =
     ((sampleTask 1000 sampleRequests)
        \<lparr>ctx_ResultBatch := Some (1, [((100, 0), 1000), ((101, 0), 1001), ((102, 0), 1002)]),
          ctx_ResultTransaction := Some txTokenBack\<rparr>,
      [(0, []), (0, [(100, 0), (101, 0), (102, 0)]), (1, [(100, 0), (101, 0), (102, 0)])],
      [OnFinish None])"
  by (simp add: runTask_finish_def cloneAndApplyBatch_eq calc_txTokenBack Let_def
      sampleState_def NewBatch_def sampleHost_def sampleTask_def sampleContext_def)

lemma runTask_sample:
  "runTask sampleState sampleHost (sampleTask 1000 sampleRequests) [(42, 1), (100, 1), (101, 1)] sampleHeap =
     ((sampleTask 1000 sampleRequests)
        \<lparr>ctx_ResultBatch := Some (1, [((100, 0), 1000), ((101, 0), 1001), ((102, 0), 1002)]),
          ctx_ResultTransaction := Some txTokenBack\<rparr>,
      [(0, []), (0, [(100, 0), (101, 0), (102, 0)]), (1, [(100, 0), (101, 0), (102, 0)])],
      [OnFinish None])"
proof -
  have r: "ctx_Requests (sampleTask 1000 sampleRequests) = sampleRequests"
    by (simp add: sampleTask_def)
  show ?thesis
    by (simp add: runTask_def createVMContext_sample r runTask_requests_sample runTask_finish_sample)
qed

theorem state_hash_from_second_clone_witness:
  "h_createVMContext sampleHost (sampleTask 1000 sampleRequests) [(42, 1), (100, 1), (101, 1)] sampleHeap =
     Inr (sampleContext 1000, [(0, []), (0, [])])
   \<and> ctx_VirtualState (sampleTask 1000 sampleRequests) = 0
   \<and> (\<exists>ctx' heap'.
         runTask sampleState sampleHost (sampleTask 1000 sampleRequests) [(42, 1), (100, 1), (101, 1)]
           sampleHeap = (ctx', heap', [OnFinish None])
       \<and> heap' ! 0 = (0, [])
       \<and> heap' ! 1 = (0, [(100, 0), (101, 0), (102, 0)])
       \<and> heap' ! 2 = (1, [(100, 0), (101, 0), (102, 0)]))"
proof -
  have r: "ctx_Requests (sampleTask 1000 sampleRequests) = sampleRequests"
    and v: "ctx_VirtualState (sampleTask 1000 sampleRequests) = 0"
    by (simp_all add: sampleTask_def)
  have lp: "runTask_requests sampleState sampleHost (ctx_Requests (sampleTask 1000 sampleRequests))
              (sampleContext 1000) [] [(0, []), (0, [])] =
     ((sampleContext 1000)\<lparr>vmctx_RequestRef := \<lparr>rr_Tx = 102, rr_Index = 0\<rparr>,
         vmctx_StateUpdate := ((102, 0), 1002), vmctx_Timestamp := 1003, vmctx_Entropy := 3\<rparr>,
      [((100, 0), 1000), ((101, 0), 1001), ((102, 0), 1002)],
      [(0, []), (0, [(100, 0), (101, 0), (102, 0)])])"
    unfolding r by (rule runTask_requests_sample)
  have rf: "ctx_VirtualState (sampleTask 1000 sampleRequests)
              < length [(0 :: uint32, [] :: RequestId list), (0, [(100, 0), (101, 0), (102, 0)])]"
    by (simp add: v)
  from state_hash_from_second_clone [OF createVMContext_sample lp rf runTask_sample]
  have "[(0 :: uint32, [] :: RequestId list), (0, [(100, 0), (101, 0), (102, 0)]),
                    (1, [(100, 0), (101, 0), (102, 0)])] ! 0
            = [(0, []), (0, [(100, 0), (101, 0), (102, 0)])] ! 0"
    by simp
  with createVMContext_sample v runTask_sample show ?thesis by simp
qed

text \<open>
  Claim C5 does not hold for \<open>runVM\<close> of the older runner: it applies the batch to
  \<open>ctx.VariableState\<close> itself, so the snapshot of the task is changed by the computation
  of the hash. In the sample run it goes from index 0 with no request to index 1 with
  two requests.
\<close>

theorem runVM_changes_task_state:
  "sampleHeap ! ctx0_VariableState sampleTask0 = (0, [])
   \<and> (\<exists>ctx' heap'.
         runVM sampleState sampleHost0 nilProcessor sampleTask0 [(42, 1), (100, 1), (101, 1)] sampleHeap =
           (None, ctx', heap', [OnFinish None])
       \<and> heap' ! ctx0_VariableState sampleTask0 = (1, [(100, 0), (101, 0)])
       \<and> heap' ! ctx0_VariableState sampleTask0 \<noteq> sampleHeap ! ctx0_VariableState sampleTask0)"
  by (simp add: runVM_sample) (simp add: sampleTask0_def sampleHeap_def)

subsection \<open>Timestamp and entropy\<close>

lemma runTask_requests_step:
  "runTask_requests S H (reqRef # rest) vmctx stateUpdates heap =
     (case h_runTheRequest H
             (vmctx\<lparr>vmctx_RequestRef := reqRef,
                     vmctx_StateUpdate := st_WithTimestamp S (st_NewStateUpdate S (RequestId reqRef))
                                            (vmctx_Timestamp vmctx)\<rparr>) heap of
        (vmctx2, heap2) \<Rightarrow>
          runTask_requests S H rest
            ((if vmctx_Timestamp vmctx2 \<noteq> 0
              then vmctx2\<lparr>vmctx_Timestamp := vmctx_Timestamp vmctx2 + 1\<rparr>
              else vmctx2)\<lparr>vmctx_Entropy := h_HashData H (vmctx_Entropy vmctx2)\<rparr>)
            (stateUpdates @ [vmctx_StateUpdate vmctx2])
            (heap2[vmctx_VirtualState vmctx2 :=
                     st_ApplyStateUpdate S (heap2 ! vmctx_VirtualState vmctx2) (vmctx_StateUpdate vmctx2)]))"
  by (simp add: Let_def split: prod.split)

lemma clock_after:
  assumes "keepsClock H"
  shows "vmctx_Entropy (fst (runTask_requests S H reqs vmctx sus heap)) =
           (h_HashData H ^^ length reqs) (vmctx_Entropy vmctx)
       \<and> vmctx_Timestamp (fst (runTask_requests S H reqs vmctx sus heap)) =
           (tick ^^ length reqs) (vmctx_Timestamp vmctx)"
proof (induction reqs arbitrary: vmctx sus heap)
  case Nil
  show ?case by simp
next
  case (Cons reqRef rest)
  define vmctx1 where "vmctx1 = vmctx\<lparr>vmctx_RequestRef := reqRef,
                     vmctx_StateUpdate := st_WithTimestamp S (st_NewStateUpdate S (RequestId reqRef))
                                            (vmctx_Timestamp vmctx)\<rparr>"
  obtain vmctx2 heap2 where r: "h_runTheRequest H vmctx1 heap = (vmctx2, heap2)"
    by (cases "h_runTheRequest H vmctx1 heap")
  from assms have "vmctx_Timestamp (fst (h_runTheRequest H vmctx1 heap)) = vmctx_Timestamp vmctx1"
    and "vmctx_Entropy (fst (h_runTheRequest H vmctx1 heap)) = vmctx_Entropy vmctx1"
    unfolding keepsClock_def by blast+
  with r have t: "vmctx_Timestamp vmctx2 = vmctx_Timestamp vmctx"
    and e: "vmctx_Entropy vmctx2 = vmctx_Entropy vmctx"
    by (simp_all add: vmctx1_def)
  have t4: "vmctx_Timestamp ((if vmctx_Timestamp vmctx2 \<noteq> 0
              then vmctx2\<lparr>vmctx_Timestamp := vmctx_Timestamp vmctx2 + 1\<rparr>
              else vmctx2)\<lparr>vmctx_Entropy := h_HashData H (vmctx_Entropy vmctx2)\<rparr>)
            = tick (vmctx_Timestamp vmctx)"
    by (simp add: t tick_def)
  have e4: "vmctx_Entropy ((if vmctx_Timestamp vmctx2 \<noteq> 0
              then vmctx2\<lparr>vmctx_Timestamp := vmctx_Timestamp vmctx2 + 1\<rparr>
              else vmctx2)\<lparr>vmctx_Entropy := h_HashData H (vmctx_Entropy vmctx2)\<rparr>)
            = h_HashData H (vmctx_Entropy vmctx)"
    by (simp add: e)
  show ?case
    unfolding runTask_requests_step vmctx1_def [symmetric] r
    by (simp only: prod.case Cons.IH t4 e4 length_Cons funpow_Suc_right o_apply fst_conv)
qed

lemma tick_0: "tick 0 = 0"
  by (simp add: tick_def)

lemma tick_zero: "(tick ^^ n) 0 = 0"
  by (induction n) (simp_all add: tick_0)

lemma tick_plain:
  "(\<forall>k < n. t + of_nat k \<noteq> 0) \<Longrightarrow> (tick ^^ n) t = t + of_nat n"
proof (induction n)
  case 0
  show ?case by simp
next
  case (Suc n)
  then have ih: "(tick ^^ n) t = t + of_nat n" by simp
  from Suc.prems have nz: "t + of_nat n \<noteq> 0" by simp
  have "(tick ^^ Suc n) t = tick ((tick ^^ n) t)" by simp
  also have "\<dots> = tick (t + of_nat n)" by (simp only: ih)
  also have "\<dots> = t + of_nat n + 1" using nz by (simp add: tick_def)
  also have "\<dots> = t + of_nat (Suc n)" by simp
  finally show ?case .
qed

lemma positive_no_zero:
  fixes t :: int64
  assumes "0 <s t" and "sint t + int n < 2 ^ 63"
  shows "t + of_nat n \<noteq> 0" and "sint (t + of_nat n) = sint t + int n"
proof -
  from assms(1) have p: "0 < sint t" by (simp add: word_sless_alt)
  from p assms(2) have n: "int n < 2 ^ 63" by linarith
  have "signed_take_bit 63 (int n) = int n"
    using n by (intro signed_take_bit_int_eq_self) simp_all
  then have "sint (t + of_nat n) = signed_take_bit 63 (sint t + int n)"
    by (simp add: sint_word_ariths signed_of_nat)
  also have "\<dots> = sint t + int n"
    using p assms(2) by (intro signed_take_bit_int_eq_self) simp_all
  finally show s: "sint (t + of_nat n) = sint t + int n" .
  show "t + of_nat n \<noteq> 0"
  proof
    assume "t + of_nat n = 0"
    then have "sint (t + of_nat n) = 0" by simp
    with s p show False by simp
  qed
qed

lemma runTask_requests_append:
  "runTask_requests S H (xs @ ys) vmctx sus heap =
     (case runTask_requests S H xs vmctx sus heap of
        (vmctx', sus', heap') \<Rightarrow> runTask_requests S H ys vmctx' sus' heap')"
proof (induction xs arbitrary: vmctx sus heap)
  case Nil
  show ?case by simp
next
  case (Cons reqRef rest)
  show ?case
    unfolding append_Cons runTask_requests_step
    by (simp add: Cons.IH split: prod.split)
qed

text \<open>
  Claim C4, as far as it holds, for \<open>runTask\<close> of \<open>plugin.go\<close> and collaborators that
  keep the clock. Let the loop have reached the context \<open>vmctx_i\<close> after the first \<open>i\<close>
  requests. Request \<open>i\<close> (from 0) is processed in the context \<open>vmctx1\<close>: \<open>vmctx_i\<close> with
  the request and a new state update stamped with the timestamp of \<open>vmctx_i\<close>. The loop
  over the first \<open>i + 1\<close> requests returns what \<open>runTheRequest\<close> makes of \<open>vmctx1\<close>, with
  the state update appended and applied, and only then the timestamp advanced by 1 when
  it is not zero and the entropy replaced by its hash. The entropy request \<open>i\<close> is given
  is the starting entropy hashed \<open>i\<close> times; the timestamp it is given, which is also the
  timestamp of its state update, is the starting timestamp after \<open>i\<close> steps of \<open>tick\<close>:
  zero stays zero; it is \<open>t + i\<close> when none of \<open>t, ..., t + i - 1\<close> is zero in \<open>int64\<close>
  arithmetic, which is so for every positive \<open>t\<close> with \<open>t + i < 2^63\<close>. After request \<open>i\<close>
  the timestamp is one more \<open>tick\<close> and the entropy one more hash of what the request
  was given.
\<close>

theorem timestamp_and_entropy_advance:
  assumes clock: "keepsClock H" and i: "i < length reqs"
    and before: "runTask_requests S H (take i reqs) vmctx sus heap = (vmctx_i, sus_i, heap_i)"
    and given: "vmctx1 = vmctx_i\<lparr>vmctx_RequestRef := reqs ! i,
                   vmctx_StateUpdate := st_WithTimestamp S (st_NewStateUpdate S (RequestId (reqs ! i)))
                                          (vmctx_Timestamp vmctx_i)\<rparr>"
    and run: "h_runTheRequest H vmctx1 heap_i = (vmctx2, heap2)"
  shows "runTask_requests S H (take (Suc i) reqs) vmctx sus heap =
           ((if vmctx_Timestamp vmctx2 \<noteq> 0
             then vmctx2\<lparr>vmctx_Timestamp := vmctx_Timestamp vmctx2 + 1\<rparr>
             else vmctx2)\<lparr>vmctx_Entropy := h_HashData H (vmctx_Entropy vmctx2)\<rparr>,
            sus_i @ [vmctx_StateUpdate vmctx2],
            heap2[vmctx_VirtualState vmctx2 :=
                    st_ApplyStateUpdate S (heap2 ! vmctx_VirtualState vmctx2) (vmctx_StateUpdate vmctx2)])
       \<and> vmctx_Entropy vmctx1 = (h_HashData H ^^ i) (vmctx_Entropy vmctx)
       \<and> vmctx_Timestamp vmctx1 = (tick ^^ i) (vmctx_Timestamp vmctx)
       \<and> vmctx_StateUpdate vmctx1 =
           st_WithTimestamp S (st_NewStateUpdate S (RequestId (reqs ! i)))
             ((tick ^^ i) (vmctx_Timestamp vmctx))
       \<and> (vmctx_Timestamp vmctx = 0 \<longrightarrow> vmctx_Timestamp vmctx1 = 0)
       \<and> ((\<forall>k < i. vmctx_Timestamp vmctx + of_nat k \<noteq> 0) \<longrightarrow>
            vmctx_Timestamp vmctx1 = vmctx_Timestamp vmctx + of_nat i)
       \<and> (0 <s vmctx_Timestamp vmctx \<and> sint (vmctx_Timestamp vmctx) + int i < 2 ^ 63 \<longrightarrow>
            sint (vmctx_Timestamp vmctx1) = sint (vmctx_Timestamp vmctx) + int i)
       \<and> vmctx_Timestamp (fst (runTask_requests S H (take (Suc i) reqs) vmctx sus heap)) =
           tick (vmctx_Timestamp vmctx1)
       \<and> vmctx_Entropy (fst (runTask_requests S H (take (Suc i) reqs) vmctx sus heap)) =
           h_HashData H (vmctx_Entropy vmctx1)"
proof -
  let ?t = "vmctx_Timestamp vmctx"
  from i have len: "length (take i reqs) = i" by simp
  from clock_after [OF clock, of S "take i reqs" vmctx sus heap] before
  have ei: "vmctx_Entropy vmctx_i = (h_HashData H ^^ i) (vmctx_Entropy vmctx)"
    and ti: "vmctx_Timestamp vmctx_i = (tick ^^ i) ?t"
    by (simp_all only: len fst_conv)
  from given have e1: "vmctx_Entropy vmctx1 = vmctx_Entropy vmctx_i"
    and t1: "vmctx_Timestamp vmctx1 = vmctx_Timestamp vmctx_i"
    and s1: "vmctx_StateUpdate vmctx1 =
               st_WithTimestamp S (st_NewStateUpdate S (RequestId (reqs ! i))) (vmctx_Timestamp vmctx_i)"
    by simp_all
  from i have split: "take (Suc i) reqs = take i reqs @ [reqs ! i]"
    by (rule take_Suc_conv_app_nth)
  have step: "runTask_requests S H (take (Suc i) reqs) vmctx sus heap =
           ((if vmctx_Timestamp vmctx2 \<noteq> 0
             then vmctx2\<lparr>vmctx_Timestamp := vmctx_Timestamp vmctx2 + 1\<rparr>
             else vmctx2)\<lparr>vmctx_Entropy := h_HashData H (vmctx_Entropy vmctx2)\<rparr>,
            sus_i @ [vmctx_StateUpdate vmctx2],
            heap2[vmctx_VirtualState vmctx2 :=
                    st_ApplyStateUpdate S (heap2 ! vmctx_VirtualState vmctx2) (vmctx_StateUpdate vmctx2)])"
    unfolding split runTask_requests_append before prod.case runTask_requests_step
      given [symmetric] run
    by simp
  from clock have "vmctx_Timestamp (fst (h_runTheRequest H vmctx1 heap_i)) = vmctx_Timestamp vmctx1"
    and "vmctx_Entropy (fst (h_runTheRequest H vmctx1 heap_i)) = vmctx_Entropy vmctx1"
    unfolding keepsClock_def by blast+
  with run have t2: "vmctx_Timestamp vmctx2 = vmctx_Timestamp vmctx1"
    and e2: "vmctx_Entropy vmctx2 = vmctx_Entropy vmctx1"
    by simp_all
  have after_t: "vmctx_Timestamp (fst (runTask_requests S H (take (Suc i) reqs) vmctx sus heap)) =
           tick (vmctx_Timestamp vmctx1)"
    unfolding step by (simp add: t2 tick_def)
  have after_e: "vmctx_Entropy (fst (runTask_requests S H (take (Suc i) reqs) vmctx sus heap)) =
           h_HashData H (vmctx_Entropy vmctx1)"
    unfolding step by (simp add: e2)
  have z: "vmctx_Timestamp vmctx1 = 0" if "?t = 0"
    using that t1 ti by (simp add: tick_zero)
  have plain: "vmctx_Timestamp vmctx1 = ?t + of_nat i" if "\<forall>k < i. ?t + of_nat k \<noteq> 0"
    using tick_plain [OF that] t1 ti by simp
  have pos: "sint (vmctx_Timestamp vmctx1) = sint ?t + int i"
    if p: "0 <s ?t \<and> sint ?t + int i < 2 ^ 63"
  proof -
    have "?t + of_nat k \<noteq> 0" if "k < i" for k
    proof (rule positive_no_zero(1))
      show "0 <s ?t" using p by simp
      from that have "int k < int i" by simp
      with p show "sint ?t + int k < 2 ^ 63" by linarith
    qed
    then have "vmctx_Timestamp vmctx1 = ?t + of_nat i" using plain by blast
    with positive_no_zero(2) [of ?t i] p show ?thesis by simp
  qed
  have su: "vmctx_StateUpdate vmctx1 =
           st_WithTimestamp S (st_NewStateUpdate S (RequestId (reqs ! i))) ((tick ^^ i) ?t)"
    using s1 ti by simp
  have e: "vmctx_Entropy vmctx1 = (h_HashData H ^^ i) (vmctx_Entropy vmctx)"
    using e1 ei by simp
  have t: "vmctx_Timestamp vmctx1 = (tick ^^ i) ?t"
    using t1 ti by simp
  from step e t su z plain pos after_t after_e show ?thesis by blast
qed

lemma keepsClock_sample: "keepsClock sampleHost"
  by (simp add: keepsClock_def sampleHost_def)

lemma runTask_requests_sample2:
  "runTask_requests sampleState sampleHost (take 2 sampleRequests) (sampleContext ts) [] [(0, []), (0, [])] =
     ((sampleContext ts)\<lparr>vmctx_RequestRef := \<lparr>rr_Tx = 101, rr_Index = 0\<rparr>,
         vmctx_StateUpdate := ((101, 0), tick ts), vmctx_Timestamp := tick (tick ts), vmctx_Entropy := 2\<rparr>,
      [((100, 0), ts), ((101, 0), tick ts)],
      [(0, []), (0, [(100, 0), (101, 0)])])"
  by (simp add: sampleState_def NewBatch_def sampleHost_def sampleRequests_def sampleContext_def RequestId_def
      Let_def tick_def)

lemma runTask_requests_sample1:
  "runTask_requests sampleState sampleHost (take 1 sampleRequests) (sampleContext 1000) [] [(0, []), (0, [])] =
     ((sampleContext 1000)\<lparr>vmctx_RequestRef := \<lparr>rr_Tx = 100, rr_Index = 0\<rparr>,
         vmctx_StateUpdate := ((100, 0), 1000), vmctx_Timestamp := 1001, vmctx_Entropy := 1\<rparr>,
      [((100, 0), 1000)],
      [(0, []), (0, [(100, 0)])])"
  by (simp add: sampleState_def NewBatch_def sampleHost_def sampleRequests_def sampleContext_def
      RequestId_def Let_def)

theorem timestamp_and_entropy_advance_witness:
  "keepsClock sampleHost \<and> 1 < length sampleRequests
   \<and> vmctx_Timestamp (sampleContext 1000) = 1000 \<and> vmctx_Entropy (sampleContext 1000) = 0
   \<and> h_runTheRequest sampleHost
         ((sampleContext 1000)\<lparr>vmctx_RequestRef := \<lparr>rr_Tx = 101, rr_Index = 0\<rparr>,
            vmctx_StateUpdate := ((101, 0), 1001), vmctx_Timestamp := 1001, vmctx_Entropy := 1\<rparr>)
         [(0, []), (0, [(100, 0)])] =
       ((sampleContext 1000)\<lparr>vmctx_RequestRef := \<lparr>rr_Tx = 101, rr_Index = 0\<rparr>,
            vmctx_StateUpdate := ((101, 0), 1001), vmctx_Timestamp := 1001, vmctx_Entropy := 1\<rparr>,
        [(0, []), (0, [(100, 0)])])
   \<and> runTask_requests sampleState sampleHost (take (Suc 1) sampleRequests) (sampleContext 1000) []
         [(0, []), (0, [])] =
       ((sampleContext 1000)\<lparr>vmctx_RequestRef := \<lparr>rr_Tx = 101, rr_Index = 0\<rparr>,
            vmctx_StateUpdate := ((101, 0), 1001), vmctx_Timestamp := 1002, vmctx_Entropy := 2\<rparr>,
        [((100, 0), 1000), ((101, 0), 1001)],
        [(0, []), (0, [(100, 0), (101, 0)])])
   \<and> vmctx_Timestamp (fst (runTask_requests sampleState sampleHost (take (Suc 1) sampleRequests)
                            (sampleContext 1000) [] [(0, []), (0, [])])) = 1002
   \<and> vmctx_Entropy (fst (runTask_requests sampleState sampleHost (take (Suc 1) sampleRequests)
                            (sampleContext 1000) [] [(0, []), (0, [])])) = 2"
proof -
  let ?c1 = "(sampleContext 1000)\<lparr>vmctx_RequestRef := \<lparr>rr_Tx = 100, rr_Index = 0\<rparr>,
         vmctx_StateUpdate := ((100, 0), 1000), vmctx_Timestamp := 1001, vmctx_Entropy := 1\<rparr>"
  let ?v1 = "(sampleContext 1000)\<lparr>vmctx_RequestRef := \<lparr>rr_Tx = 101, rr_Index = 0\<rparr>,
            vmctx_StateUpdate := ((101, 0), 1001), vmctx_Timestamp := 1001, vmctx_Entropy := 1\<rparr>"
  have l: "1 < length sampleRequests" by (simp add: sampleRequests_def)
  have c: "vmctx_Timestamp (sampleContext 1000) = 1000" "vmctx_Entropy (sampleContext 1000) = 0"
    by (simp_all add: sampleContext_def)
  have g: "?v1 = ?c1\<lparr>vmctx_RequestRef := sampleRequests ! 1,
                   vmctx_StateUpdate := st_WithTimestamp sampleState
                      (st_NewStateUpdate sampleState (RequestId (sampleRequests ! 1)))
                      (vmctx_Timestamp ?c1)\<rparr>"
    by (simp add: sampleState_def sampleRequests_def sampleContext_def RequestId_def)
  have r: "h_runTheRequest sampleHost ?v1 [(0, []), (0, [(100, 0)])] = (?v1, [(0, []), (0, [(100, 0)])])"
    by (simp add: sampleHost_def)
  have h: "h_HashData sampleHost = Suc" by (simp add: sampleHost_def)
  note th = timestamp_and_entropy_advance [OF keepsClock_sample l runTask_requests_sample1 g r]
  from th have step: "runTask_requests sampleState sampleHost (take (Suc 1) sampleRequests)
         (sampleContext 1000) [] [(0, []), (0, [])] =
       ((if vmctx_Timestamp ?v1 \<noteq> 0 then ?v1\<lparr>vmctx_Timestamp := vmctx_Timestamp ?v1 + 1\<rparr> else ?v1)
          \<lparr>vmctx_Entropy := h_HashData sampleHost (vmctx_Entropy ?v1)\<rparr>,
        [((100, 0), 1000)] @ [vmctx_StateUpdate ?v1],
        [(0, []), (0, [(100, 0)])][vmctx_VirtualState ?v1 :=
            st_ApplyStateUpdate sampleState ([(0, []), (0, [(100, 0)])] ! vmctx_VirtualState ?v1)
              (vmctx_StateUpdate ?v1)])"
    by blast
  have res: "runTask_requests sampleState sampleHost (take (Suc 1) sampleRequests) (sampleContext 1000) []
         [(0, []), (0, [])] =
       ((sampleContext 1000)\<lparr>vmctx_RequestRef := \<lparr>rr_Tx = 101, rr_Index = 0\<rparr>,
            vmctx_StateUpdate := ((101, 0), 1001), vmctx_Timestamp := 1002, vmctx_Entropy := 2\<rparr>,
        [((100, 0), 1000), ((101, 0), 1001)],
        [(0, []), (0, [(100, 0), (101, 0)])])"
    unfolding step by (simp add: sampleState_def sampleContext_def h)
  have t: "vmctx_Timestamp (fst (runTask_requests sampleState sampleHost (take (Suc 1) sampleRequests)
                            (sampleContext 1000) [] [(0, []), (0, [])])) = 1002"
    and e: "vmctx_Entropy (fst (runTask_requests sampleState sampleHost (take (Suc 1) sampleRequests)
                            (sampleContext 1000) [] [(0, []), (0, [])])) = 2"
    unfolding res by simp_all
  from keepsClock_sample l c r res t e show ?thesis by blast
qed

text \<open>
  Claim C4 says that request \<open>i\<close> observes \<open>t + i\<close> for every non-zero starting timestamp
  \<open>t\<close>. A negative timestamp stops advancing once it reaches zero: from \<open>t = -1\<close> the
  request 2 observes 0, not 1.
\<close>

theorem negative_timestamp_stops_at_zero:
  "keepsClock sampleHost \<and> 2 \<le> length sampleRequests
   \<and> vmctx_Timestamp (sampleContext (- 1)) \<noteq> 0
   \<and> vmctx_Timestamp (fst (runTask_requests sampleState sampleHost (take 2 sampleRequests)
                            (sampleContext (- 1)) [] [(0, []), (0, [])])) = 0
   \<and> vmctx_Timestamp (sampleContext (- 1)) + 2 = 1"
  by (simp add: keepsClock_sample runTask_requests_sample2)
     (simp add: sampleRequests_def sampleContext_def tick_def)

subsection \<open>Truncation of the batch\<close>









end
